theory Spec2Isabelle
  imports Main "HOL-Library.Sublist" "HOL-Library.Char_ord" "HOL-Library.List_Lexorder"
begin

section \<open>Native cluster broker (vcdbroker.py): data model\<close>

text \<open>
  Python strings are modelled as \<open>string\<close> (lists of 8-bit characters), so the model covers
  names and version strings whose code points are below 256. Python's \<open>str\<close> comparison
  is the lexicographic order on code points, which is the order of
  \<open>HOL-Library.List_Lexorder\<close> over \<open>HOL-Library.Char_ord\<close>.
\<close>

text \<open>
  Exceptions are values: the class of the exception and its message. The classes are those
  the broker names, \<open>Exception\<close> for a plain \<open>raise Exception(...)\<close>, and
  \<open>EntityNotFoundException\<close> for a lookup that the infrastructure client refuses.
  \<open>NodeCreationError\<close> also carries its \<open>node_names\<close>. Messages produced by
  libraries are left empty.
\<close>

datatype error_class =
    Exception
  | IndexError
  | KeyError
  | TypeError
  | ValueError
  | EntityNotFoundException
  | BadRequestError
  | CseServerError
  | ClusterNotFoundError
  | CseDuplicateClusterError
  | ClusterAlreadyExistsError
  | ClusterOperationError
  | ClusterInitializationError
  | ClusterJoiningError
  | MasterNodeCreationError
  | WorkerNodeCreationError
  | NFSNodeCreationError
  | NodeOperationError
  | ScriptExecutionError
  | NodeCreationError

datatype error =
    Error error_class string
  | NodeCreationFailure "string list" string

fun class_of :: "error \<Rightarrow> error_class" where
  "class_of (Error c m) = c"
| "class_of (NodeCreationFailure names m) = NodeCreationError"

fun str_error :: "error \<Rightarrow> string" where
  "str_error (Error c m) = m"
| "str_error (NodeCreationFailure names m) = m"

text \<open>An entry of \<open>config['broker']['templates']\<close>, with the \<open>LocalTemplateKey\<close> fields the
  broker reads.\<close>

record template =
  t_name :: string
  t_revision :: string
  t_catalog_item_name :: string
  t_os :: string
  t_docker_version :: string
  t_kubernetes :: string
  t_kubernetes_version :: string
  t_cni :: string
  t_cni_version :: string
  t_cpu :: nat
  t_memory :: nat
  t_upgrade_from :: "string list"

text \<open>The cluster dictionary built by \<open>get_all_clusters\<close> from the metadata of a vApp.\<close>

record cluster =
  c_name :: string
  c_cluster_id :: string
  c_vapp_href :: string
  c_vdc_href :: string
  c_template_name :: string
  c_template_revision :: string
  c_docker_version :: string
  c_kubernetes_version :: string
  c_cni :: string
  c_cni_version :: string

section \<open>Semantic versions\<close>

text \<open>
  \<open>semver.Version\<close> belongs to the external package \<open>semantic_version\<close>. A parsed
  version is the record below; the parser itself is a parameter of the broker model
  (\<open>None\<close> where \<open>semver.Version(s)\<close> raises \<open>ValueError\<close>). Comparison follows the
  package's \<open>precedence_key\<close>: major, minor, patch, then the pre-release identifiers, a
  version without pre-release ranking above every pre-release of the same triple; build
  metadata takes no part in the order.
\<close>

datatype pre_identifier = NumericIdentifier nat | AlphaIdentifier string

record version =
  major :: nat
  minor :: nat
  patch :: nat
  prerelease :: "pre_identifier list"
  build :: "string list"

fun identifier_lt :: "pre_identifier \<Rightarrow> pre_identifier \<Rightarrow> bool" where
  "identifier_lt (NumericIdentifier a) (NumericIdentifier b) = (a < b)"
| "identifier_lt (NumericIdentifier a) (AlphaIdentifier b) = True"
| "identifier_lt (AlphaIdentifier a) (NumericIdentifier b) = False"
| "identifier_lt (AlphaIdentifier a) (AlphaIdentifier b) = (a < b)"

fun identifiers_lt :: "pre_identifier list \<Rightarrow> pre_identifier list \<Rightarrow> bool" where
  "identifiers_lt [] [] = False"
| "identifiers_lt [] (y # ys) = True"
| "identifiers_lt (x # xs) [] = False"
| "identifiers_lt (x # xs) (y # ys) =
     (if x = y then identifiers_lt xs ys else identifier_lt x y)"

definition prerelease_key_lt :: "pre_identifier list \<Rightarrow> pre_identifier list \<Rightarrow> bool" where
  "prerelease_key_lt p q =
     (if p = [] then False else if q = [] then True else identifiers_lt p q)"

definition precedence_key_lt :: "version \<Rightarrow> version \<Rightarrow> bool" where
  "precedence_key_lt a b =
     (major a < major b \<or> (major a = major b \<and>
       (minor a < minor b \<or> (minor a = minor b \<and>
         (patch a < patch b \<or> (patch a = patch b \<and>
           prerelease_key_lt (prerelease a) (prerelease b)))))))"

definition precedence_key_eq :: "version \<Rightarrow> version \<Rightarrow> bool" where
  "precedence_key_eq a b =
     (major a = major b \<and> minor a = minor b \<and> patch a = patch b
      \<and> prerelease a = prerelease b)"

definition version_gt :: "version \<Rightarrow> version \<Rightarrow> bool" where
  "version_gt a b = precedence_key_lt b a"

definition version_ge :: "version \<Rightarrow> version \<Rightarrow> bool" where
  "version_ge a b = (precedence_key_lt b a \<or> precedence_key_eq a b)"

text \<open>A parser for plain \<open>major.minor.patch\<close> strings without leading zeros, used to
  instantiate the parser parameter on concrete inputs.\<close>

fun digits_value :: "nat \<Rightarrow> string \<Rightarrow> nat option" where
  "digits_value acc [] = Some acc"
| "digits_value acc (c # cs) =
     (if CHR ''0'' \<le> c \<and> c \<le> CHR ''9''
      then digits_value (10 * acc + (of_char c - 48)) cs else None)"

definition number_field :: "string \<Rightarrow> nat option" where
  "number_field s =
     (if s = [] \<or> (hd s = CHR ''0'' \<and> length s > 1) then None else digits_value 0 s)"

fun split_on :: "'a \<Rightarrow> 'a list \<Rightarrow> 'a list list" where
  "split_on sep [] = [[]]"
| "split_on sep (c # cs) =
     (if c = sep then [] # split_on sep cs
      else (case split_on sep cs of [] \<Rightarrow> [[c]] | w # ws \<Rightarrow> (c # w) # ws))"

definition plain_version :: "string \<Rightarrow> version option" where
  "plain_version s =
     (case split_on CHR ''.'' s of
        [a, b, c] \<Rightarrow>
          (case (number_field a, number_field b, number_field c) of
             (Some x, Some y, Some z) \<Rightarrow>
               Some \<lparr>major = x, minor = y, patch = z, prerelease = [], build = []\<rparr>
           | _ \<Rightarrow> None)
      | _ \<Rightarrow> None)"

section \<open>Upgrade decision of \<open>_upgrade_cluster_async\<close>\<close>

record upgrade_flags =
  upgrade_docker :: bool
  upgrade_k8s :: bool
  upgrade_cni :: bool

text \<open>
  Lines 1143 to 1152: the docker versions are compared as strings, the Kubernetes and CNI
  versions as parsed semantic versions, parsed in the order cluster Kubernetes, template
  Kubernetes, cluster CNI, template CNI. A parse failure is the \<open>ValueError\<close> that the
  enclosing \<open>except Exception\<close> turns into task ERROR.
\<close>

definition upgrade_decision ::
  "(string \<Rightarrow> version option) \<Rightarrow> cluster \<Rightarrow> template \<Rightarrow> error + upgrade_flags" where
  "upgrade_decision semver c t =
     (let c_docker = c_docker_version c; t_docker = t_docker_version t in
      case semver (c_kubernetes_version c) of None \<Rightarrow> Inl (Error ValueError []) | Some c_k8s \<Rightarrow>
      case semver (t_kubernetes_version t) of None \<Rightarrow> Inl (Error ValueError []) | Some t_k8s \<Rightarrow>
      case semver (c_cni_version c) of None \<Rightarrow> Inl (Error ValueError []) | Some c_cni_v \<Rightarrow>
      case semver (t_cni_version t) of None \<Rightarrow> Inl (Error ValueError []) | Some t_cni_v \<Rightarrow>
        Inr \<lparr>upgrade_docker = (t_docker > c_docker),
             upgrade_k8s = version_ge t_k8s c_k8s,
             upgrade_cni = (version_gt t_cni_v c_cni_v \<or> major t_k8s > major c_k8s
                            \<or> minor t_k8s > minor c_k8s)\<rparr>)"

section \<open>Upgrade plan\<close>

text \<open>
  Lines 253 to 264 of \<open>get_cluster_upgrade_plan\<close>, after the cluster lookup. Python's
  \<open>int()\<close> on a revision string is the parameter \<open>int_of\<close> (\<open>None\<close> where it raises
  \<open>ValueError\<close>); as in the source, the template's revision is converted before the
  cluster's, and only for a template of the same name whose upgrade-from list holds the
  cluster's template name.
\<close>

fun upgrade_plan_loop ::
  "(string \<Rightarrow> int option) \<Rightarrow> string \<Rightarrow> string \<Rightarrow> template list \<Rightarrow> template list
     \<Rightarrow> error + template list" where
  "upgrade_plan_loop int_of src_name src_rev upgrades [] = Inr upgrades"
| "upgrade_plan_loop int_of src_name src_rev upgrades (t # ts) =
     (if src_name \<in> set (t_upgrade_from t) then
        (if t_name t = src_name then
           (case int_of (t_revision t) of None \<Rightarrow> Inl (Error ValueError []) | Some r \<Rightarrow>
            (case int_of src_rev of None \<Rightarrow> Inl (Error ValueError []) | Some sr \<Rightarrow>
              (if r \<le> sr then upgrade_plan_loop int_of src_name src_rev upgrades ts
               else upgrade_plan_loop int_of src_name src_rev (upgrades @ [t]) ts)))
         else upgrade_plan_loop int_of src_name src_rev (upgrades @ [t]) ts)
      else upgrade_plan_loop int_of src_name src_rev upgrades ts)"

definition get_cluster_upgrade_plan ::
  "(string \<Rightarrow> int option) \<Rightarrow> template list \<Rightarrow> cluster \<Rightarrow> error + template list" where
  "get_cluster_upgrade_plan int_of templates c =
     upgrade_plan_loop int_of (c_template_name c) (c_template_revision c) [] templates"

text \<open>The claim's wording: a candidate of the same name at a revision not above the
  current one, and a template that the plan should list.\<close>

definition same_name_not_newer ::
  "(string \<Rightarrow> int option) \<Rightarrow> string \<Rightarrow> string \<Rightarrow> template \<Rightarrow> bool" where
  "same_name_not_newer int_of src_name src_rev t =
     (t_name t = src_name \<and>
      (case int_of (t_revision t) of None \<Rightarrow> False
       | Some r \<Rightarrow> (case int_of src_rev of None \<Rightarrow> False | Some sr \<Rightarrow> r \<le> sr)))"

definition upgrade_candidate ::
  "(string \<Rightarrow> int option) \<Rightarrow> string \<Rightarrow> string \<Rightarrow> template \<Rightarrow> bool" where
  "upgrade_candidate int_of src_name src_rev t =
     (src_name \<in> set (t_upgrade_from t) \<and> \<not> same_name_not_newer int_of src_name src_rev t)"

text \<open>A reader of decimal revisions (optional minus sign, then digits), an instance of
  \<open>int_of\<close>.\<close>

definition decimal_int :: "string \<Rightarrow> int option" where
  "decimal_int s =
     (case s of
        [] \<Rightarrow> None
      | c # cs \<Rightarrow>
          if c = CHR ''-'' then
            (if cs = [] then None else map_option (\<lambda>n. - int n) (digits_value 0 cs))
          else map_option int (digits_value 0 s))"

section \<open>Cluster-name validator\<close>

text \<open>
  A Python string is a sequence of Unicode code points; a name is modelled as the list of
  its code points, and \<open>code_points\<close> gives that list for a string of 8-bit characters.
\<close>

type_synonym ustring = "nat list"

definition code_points :: "string \<Rightarrow> ustring" where
  "code_points s = map of_char s"

text \<open>
  \<open>re.compile(r"(?!-)[A-Z\d-]{1,63}(?<!-)$", re.IGNORECASE)\<close>, tried at the start of a
  label by \<open>allowed.match\<close>. The pattern is a \<open>str\<close> pattern compiled without
  \<open>re.ASCII\<close>, so the class is Unicode-aware: under \<open>IGNORECASE\<close> the range \<open>A-Z\<close>
  matches the 52 ASCII letters and the four code points whose case folding falls in the
  range (U+0130, U+0131, U+017F, U+212A), and \<open>\d\<close> matches every code point of the
  category of decimal digits. Below U+0100 the only decimal digits are \<open>0\<close> to \<open>9\<close>;
  the table of the decimal digits from U+0100 on belongs to the interpreter and is the
  parameter \<open>decimal\<close>.
\<close>

definition ascii_letter :: "nat \<Rightarrow> bool" where
  "ascii_letter c = ((65 \<le> c \<and> c \<le> 90) \<or> (97 \<le> c \<and> c \<le> 122))"

definition ascii_digit :: "nat \<Rightarrow> bool" where
  "ascii_digit c = (48 \<le> c \<and> c \<le> 57)"

definition hyphen :: nat where
  "hyphen = 45"

definition line_feed :: nat where
  "line_feed = 10"

definition dot :: nat where
  "dot = 46"

definition label_char :: "(nat \<Rightarrow> bool) \<Rightarrow> nat \<Rightarrow> bool" where
  "label_char decimal c =
     (ascii_letter c \<or> c = 0x130 \<or> c = 0x131 \<or> c = 0x17F \<or> c = 0x212A
      \<or> ascii_digit c \<or> (256 \<le> c \<and> decimal c) \<or> c = hyphen)"

text \<open>
  An attempt lets the class consume \<open>k\<close> characters, with \<open>k\<close> from 1 to 63; the
  look-behind then inspects the last consumed character, and \<open>$\<close> holds at the end of
  the label or just before a line feed that ends it.
\<close>

definition at_dollar :: "ustring \<Rightarrow> nat \<Rightarrow> bool" where
  "at_dollar x k = (k = length x \<or> (Suc k = length x \<and> x ! k = line_feed))"

definition allowed_match_at :: "(nat \<Rightarrow> bool) \<Rightarrow> ustring \<Rightarrow> nat \<Rightarrow> bool" where
  "allowed_match_at decimal x k =
     (k \<le> length x \<and> list_all (label_char decimal) (take k x) \<and> last (take k x) \<noteq> hyphen
      \<and> at_dollar x k)"

definition allowed_match :: "(nat \<Rightarrow> bool) \<Rightarrow> ustring \<Rightarrow> bool" where
  "allowed_match decimal x =
     (\<not> prefix [hyphen] x \<and> list_ex (allowed_match_at decimal x) [1..<64])"

text \<open>Lines 1439 to 1446. \<open>name[-1]\<close> on the empty string raises \<open>IndexError\<close>;
  \<open>split_on\<close> is \<open>str.split\<close> with a separator.\<close>

definition is_valid_cluster_name :: "(nat \<Rightarrow> bool) \<Rightarrow> ustring \<Rightarrow> error + bool" where
  "is_valid_cluster_name decimal name =
     (if length name > 25 then Inr False
      else if name = [] then Inl (Error IndexError [])
      else (let name' = (if last name = dot then butlast name else name)
            in Inr (list_all (allowed_match decimal) (split_on dot name'))))"

text \<open>The grammar in the specification's words: a label matches \<open>[A-Za-z0-9-]{1,63}\<close> and
  neither starts nor ends with a hyphen; a name has at most 25 characters and is made of
  such labels separated by dots.\<close>

definition spec_label_char :: "nat \<Rightarrow> bool" where
  "spec_label_char c = (ascii_letter c \<or> ascii_digit c \<or> c = hyphen)"

definition spec_label :: "ustring \<Rightarrow> bool" where
  "spec_label l =
     (1 \<le> length l \<and> length l \<le> 63 \<and> list_all spec_label_char l
      \<and> hd l \<noteq> hyphen \<and> last l \<noteq> hyphen)"

definition spec_valid_cluster_name :: "ustring \<Rightarrow> bool" where
  "spec_valid_cluster_name name =
     (length name \<le> 25 \<and> list_all spec_label (split_on dot name))"

definition strip_trailing_dot :: "ustring \<Rightarrow> ustring" where
  "strip_trailing_dot name = (if name \<noteq> [] \<and> last name = dot then butlast name else name)"

section \<open>Infrastructure state and the calls made on it\<close>

text \<open>
  The VM groups (vApps) visible to the client. The metadata of a vApp is what makes it a
  cluster; the VMs are listed by name.
\<close>

datatype metadata_key =
    M_CLUSTER_ID
  | M_CSE_VERSION
  | M_MASTER_IP
  | M_TEMPLATE_NAME
  | M_TEMPLATE_REVISION
  | M_OS
  | M_DOCKER_VERSION
  | M_KUBERNETES
  | M_KUBERNETES_VERSION
  | M_CNI
  | M_CNI_VERSION

record vapp =
  vapp_name :: string
  vapp_href :: string
  vapp_vdc_href :: string
  vapp_vdc_name :: string
  vapp_metadata :: "(metadata_key \<times> string) list"
  vapp_vms :: "string list"

datatype request_key =
    CLUSTER_NAME
  | ORG_NAME
  | OVDC_NAME
  | NETWORK_NAME
  | NUM_WORKERS
  | NUM_CPU
  | MB_MEMORY
  | STORAGE_PROFILE_NAME
  | SSH_KEY
  | TEMPLATE_NAME
  | TEMPLATE_REVISION
  | ENABLE_NFS
  | ROLLBACK
  | NODE_NAMES_LIST

datatype pyval = PyNone | PyStr string | PyInt int | PyBool bool | PyList "string list"

datatype task_status = RUNNING | SUCCESS | ERROR

datatype script_file = SF_MASTER | SF_NODE | SF_NFSD

text \<open>
  One constructor for each kind of request the broker sends outside: to the
  infrastructure client, to the guest of a VM, to the task tracker, to the template
  scripts on disk and to telemetry. A request that the source awaits with
  \<open>wait_for_status\<close> stands for the request and its wait.
\<close>

datatype op =
    CheckSysadmin
  | GetOrg
  | GetVdc
  | QueryClusters
  | CreateVapp string
  | SetMetadata string "(metadata_key \<times> string) list"
  | ReloadVapp string
  | GetAllVms string
  | GetVm string string
  | GetCatalogItem string string
  | GetSourceVm
  | GetStorageProfile string
  | AddVms string "string list"
  | ModifyCpu string pyval
  | ModifyMemory string pyval
  | PowerOn string
  | Undeploy string
  | DeleteVms string "string list"
  | DeleteVapp string string
  | ReadScript string string script_file
  | ConnectGuest string
  | WaitTools string
  | ExecuteScript string string
  | GetPrimaryIp string
  | WaitForStatus
  | UpdateTask task_status
  | Telemetry

datatype log_level = LOG_INFO | LOG_WARNING | LOG_ERROR

datatype event = Called op | Logged log_level string

text \<open>
  The state an operation runs on. \<open>task_resource\<close> is the task of the invocation: its
  status and, for ERROR, the error message (progress texts are not kept). \<open>trace\<close> lists
  the requests sent and the warnings and errors logged, oldest first. \<open>rand\<close> is the
  supply of four-character suffixes that \<open>random.choices\<close> will return.
\<close>

record world =
  vapps :: "vapp list"
  task_resource :: "(task_status \<times> string option) option"
  trace :: "event list"
  clock :: nat
  rand :: "string list"
  is_async :: bool
  ended :: bool

type_synonym payload = "request_key \<rightharpoonup> pyval"

text \<open>
  What the broker takes from outside its own file: the server configuration, the node-type
  prefixes of \<open>NodeType\<close>, \<open>req_utils.validate_payload\<close> (\<open>None\<close> where it accepts),
  the superclasses of each exception class, the contents of the template scripts, and the
  behaviour of the infrastructure: \<open>faults n op\<close> is the exception with which the \<open>n\<close>-th request fails
  when it is \<open>op\<close>, and \<open>guest_output n node\<close> the exit code, standard output and
  standard error of a script run as the \<open>n\<close>-th request on \<open>node\<close>.
\<close>

record env =
  broker_templates :: "template list"
  broker_default_template_name :: string
  broker_default_template_revision :: string
  broker_catalog :: string
  cse_version :: string
  MASTER :: string
  WORKER :: string
  NFS :: string
  validate_payload :: "payload \<Rightarrow> request_key list \<Rightarrow> error option"
  ancestors :: "error_class \<Rightarrow> error_class list"
  faults :: "nat \<Rightarrow> op \<Rightarrow> error option"
  guest_output :: "nat \<Rightarrow> string \<Rightarrow> int \<times> string \<times> string"
  script_text :: "string \<Rightarrow> string \<Rightarrow> script_file \<Rightarrow> string"
  k8s_version_from_template_name :: "string \<Rightarrow> string"
  format_script :: "string \<Rightarrow> string \<Rightarrow> string \<Rightarrow> string"
  source_vm :: "string \<Rightarrow> string \<Rightarrow> string"
  vdc_href_of :: "string \<Rightarrow> string"
  new_href :: "nat \<Rightarrow> string"

section \<open>Control flow: results, exceptions, non-termination\<close>

datatype 'a outcome = Return 'a | Raise error | Hang

type_synonym 'a prog = "world \<Rightarrow> 'a outcome \<times> world"

definition succeed :: "'a \<Rightarrow> 'a prog" where
  "succeed x w = (Return x, w)"

definition raise :: "error \<Rightarrow> 'a prog" where
  "raise e w = (Raise e, w)"

definition and_then :: "'a prog \<Rightarrow> ('a \<Rightarrow> 'b prog) \<Rightarrow> 'b prog" where
  "and_then m f w =
     (case m w of
        (Return x, w') \<Rightarrow> f x w'
      | (Raise e, w') \<Rightarrow> (Raise e, w')
      | (Hang, w') \<Rightarrow> (Hang, w'))"

definition next_do :: "'a prog \<Rightarrow> 'b prog \<Rightarrow> 'b prog" where
  "next_do m n = and_then m (\<lambda>_. n)"

fun run_all :: "unit prog list \<Rightarrow> unit prog" where
  "run_all [] = succeed ()"
| "run_all (m # ms) = next_do m (run_all ms)"

fun for_each :: "'a list \<Rightarrow> ('a \<Rightarrow> unit prog) \<Rightarrow> unit prog" where
  "for_each [] body = succeed ()"
| "for_each (x # xs) body = next_do (body x) (for_each xs body)"

text \<open>\<open>try: m except Exception as err: h err\<close>.\<close>

definition try_except :: "'a prog \<Rightarrow> (error \<Rightarrow> 'a prog) \<Rightarrow> 'a prog" where
  "try_except m h w =
     (case m w of
        (Return x, w') \<Rightarrow> (Return x, w')
      | (Raise e, w') \<Rightarrow> h e w'
      | (Hang, w') \<Rightarrow> (Hang, w'))"

text \<open>\<open>try: m finally: fin\<close>: \<open>fin\<close> runs after a result and after an exception, and
  an exception of \<open>fin\<close> replaces either.\<close>

definition try_finally :: "'a prog \<Rightarrow> unit prog \<Rightarrow> 'a prog" where
  "try_finally m fin w =
     (case m w of
        (Hang, w') \<Rightarrow> (Hang, w')
      | (r, w') \<Rightarrow>
          (case fin w' of
             (Return u, w'') \<Rightarrow> (r, w'')
           | (Raise e, w'') \<Rightarrow> (Raise e, w'')
           | (Hang, w'') \<Rightarrow> (Hang, w'')))"

text \<open>\<open>isinstance(err, c)\<close>, and the test of an \<open>except (c1, c2, ...)\<close> clause.\<close>

definition isinstance :: "env \<Rightarrow> error \<Rightarrow> error_class \<Rightarrow> bool" where
  "isinstance en e c = (class_of e = c \<or> c \<in> set (ancestors en (class_of e)))"

definition caught_by :: "env \<Rightarrow> error_class list \<Rightarrow> error \<Rightarrow> bool" where
  "caught_by en cs e = list_ex (isinstance en e) cs"

text \<open>A request to the outside: it is recorded, it takes one tick, and it either fails
  with the exception the environment holds for it or has its effect.\<close>

definition call :: "env \<Rightarrow> op \<Rightarrow> (world \<Rightarrow> world) \<Rightarrow> unit prog" where
  "call en x effect w =
     (let w1 = w\<lparr>trace := trace w @ [Called x], clock := Suc (clock w)\<rparr>
      in case faults en (clock w) x of
           Some e \<Rightarrow> (Raise e, w1)
         | None \<Rightarrow> (Return (), effect w1))"

definition request :: "env \<Rightarrow> op \<Rightarrow> unit prog" where
  "request en x = call en x (\<lambda>w. w)"

definition log :: "log_level \<Rightarrow> string \<Rightarrow> unit prog" where
  "log lvl msg w = (Return (), w\<lparr>trace := trace w @ [Logged lvl msg]\<rparr>)"

definition get_state :: "(world \<Rightarrow> 'a) \<Rightarrow> 'a prog" where
  "get_state f w = (Return (f w), w)"

definition context_end :: "unit prog" where
  "context_end w = (Return (), w\<lparr>ended := True\<rparr>)"

definition set_is_async :: "unit prog" where
  "set_is_async w = (Return (), w\<lparr>is_async := True\<rparr>)"

text \<open>\<open>@utils.run_async\<close>: the function runs on a thread of its own, so what it raises
  never reaches the caller. The model lets the thread finish before the caller goes on.\<close>

definition run_async :: "unit prog \<Rightarrow> unit prog" where
  "run_async m w =
     (case m w of
        (Return u, w') \<Rightarrow> (Return (), w')
      | (Raise e, w') \<Rightarrow> (Return (), w')
      | (Hang, w') \<Rightarrow> (Hang, w'))"

text \<open>Lines 1269 to 1314, \<open>_update_task\<close>: one request to the task tracker, which
  creates the task on its first use.\<close>

definition update_task :: "env \<Rightarrow> task_status \<Rightarrow> string option \<Rightarrow> unit prog" where
  "update_task en status error_message =
     call en (UpdateTask status) (\<lambda>w. w\<lparr>task_resource := Some (status, error_message)\<rparr>)"

section \<open>Reading and changing vApps\<close>

definition find_vapp :: "string \<Rightarrow> world \<Rightarrow> vapp option" where
  "find_vapp href w = find (\<lambda>v. vapp_href v = href) (vapps w)"

definition change_vapp :: "string \<Rightarrow> (vapp \<Rightarrow> vapp) \<Rightarrow> world \<Rightarrow> world" where
  "change_vapp href f w =
     w\<lparr>vapps := map (\<lambda>v. if vapp_href v = href then f v else v) (vapps w)\<rparr>"

text \<open>\<open>vapp.get_all_vms()\<close> and \<open>vapp.get_vm(name)\<close>; the latter raises when the vApp
  has no VM of that name.\<close>

definition get_all_vms :: "env \<Rightarrow> string \<Rightarrow> string list prog" where
  "get_all_vms en href =
     next_do (request en (GetAllVms href))
       (and_then (get_state (find_vapp href))
          (\<lambda>r. case r of
                  None \<Rightarrow> raise (Error EntityNotFoundException [])
                | Some v \<Rightarrow> succeed (vapp_vms v)))"

definition get_vm :: "env \<Rightarrow> string \<Rightarrow> string \<Rightarrow> unit prog" where
  "get_vm en href name =
     next_do (request en (GetVm href name))
       (and_then (get_state (find_vapp href))
          (\<lambda>r. case r of
                  None \<Rightarrow> raise (Error EntityNotFoundException [])
                | Some v \<Rightarrow>
                    if name \<in> set (vapp_vms v) then succeed ()
                    else raise (Error EntityNotFoundException [])))"

text \<open>Line 1711, \<open>get_node_names\<close>.\<close>

definition get_node_names :: "env \<Rightarrow> string \<Rightarrow> string \<Rightarrow> string list prog" where
  "get_node_names en href node_type =
     and_then (get_all_vms en href) (\<lambda>vms. succeed (filter (prefix node_type) vms))"

text \<open>\<open>vapp.delete_vms(names)\<close> with its wait: every name is resolved first, then the
  VMs leave the vApp together.\<close>

definition delete_vms :: "env \<Rightarrow> string \<Rightarrow> string list \<Rightarrow> unit prog" where
  "delete_vms en href names =
     and_then (get_state (find_vapp href))
       (\<lambda>r. case r of
               None \<Rightarrow> next_do (request en (DeleteVms href names))
                         (raise (Error EntityNotFoundException []))
             | Some v \<Rightarrow>
                 if list_all (\<lambda>n. n \<in> set (vapp_vms v)) names
                 then call en (DeleteVms href names)
                        (change_vapp href
                           (\<lambda>v. v\<lparr>vapp_vms := filter (\<lambda>n. n \<notin> set names) (vapp_vms v)\<rparr>))
                 else next_do (request en (DeleteVms href names))
                        (raise (Error EntityNotFoundException [])))"

section \<open>Running scripts in guests\<close>

text \<open>
  Lines 1834 to 1882, \<open>execute_script_in_nodes\<close>, with \<open>wait=True\<close> as at every call in
  the file: for each node in turn, connect to its guest, wait for the guest tools when
  asked to (the bounded retry of \<open>_wait_until_ready_to_exec\<close> is one request), run the
  script and keep its exit code, output and error output.
\<close>

definition execute_script_in_guest :: "env \<Rightarrow> string \<Rightarrow> string \<Rightarrow> (int \<times> string \<times> string) prog" where
  "execute_script_in_guest en node script =
     and_then (get_state clock)
       (\<lambda>n. next_do (request en (ExecuteScript node script)) (succeed (guest_output en n node)))"

fun execute_script_in_nodes ::
  "env \<Rightarrow> string list \<Rightarrow> string \<Rightarrow> bool \<Rightarrow> (int \<times> string \<times> string) list prog" where
  "execute_script_in_nodes en [] script check_tools = succeed []"
| "execute_script_in_nodes en (node_name # rest) script check_tools =
     next_do (request en (ConnectGuest node_name))
       (next_do (if check_tools then request en (WaitTools node_name) else succeed ())
          (and_then (execute_script_in_guest en node_name script)
             (\<lambda>result. and_then (execute_script_in_nodes en rest script check_tools)
                (\<lambda>all_results. succeed (result # all_results)))))"

text \<open>Line 1915, \<open>get_script_execution_errors\<close>.\<close>

definition get_script_execution_errors :: "(int \<times> string \<times> string) list \<Rightarrow> string list" where
  "get_script_execution_errors results =
     map (\<lambda>result. snd (snd result)) (filter (\<lambda>result. fst result \<noteq> 0) results)"

text \<open>Lines 1885 to 1912, \<open>run_script_in_nodes\<close>. \<open>results[0]\<close> of an empty list raises
  \<open>IndexError\<close>.\<close>

definition run_script_in_nodes :: "env \<Rightarrow> string \<Rightarrow> string list \<Rightarrow> string \<Rightarrow> unit prog" where
  "run_script_in_nodes en href node_names script =
     next_do (request en CheckSysadmin)
       (and_then (execute_script_in_nodes en node_names script False)
          (\<lambda>results.
             if get_script_execution_errors results \<noteq> []
             then raise (Error ScriptExecutionError ''Script execution failed on node'')
             else (case results of
                     [] \<Rightarrow> raise (Error IndexError [])
                   | r # rs \<Rightarrow>
                       if fst r \<noteq> 0
                       then raise (Error NodeOperationError ''Error during node operation'')
                       else succeed ())))"

definition first_of :: "'a list \<Rightarrow> 'a prog" where
  "first_of xs = (case xs of [] \<Rightarrow> raise (Error IndexError []) | x # rest \<Rightarrow> succeed x)"


section \<open>Draining and deleting nodes\<close>

definition nl :: string where
  "nl = [CHR 0x0A]"

definition shebang :: string where
  "shebang = ''#!/usr/bin/env bash'' @ nl"

definition quoted :: "string \<Rightarrow> string" where
  "quoted s = [CHR 0x27] @ s @ [CHR 0x27]"

text \<open>The script is run in the first master node of the vApp:
  \<open>run_script_in_nodes(..., [master_node_names[0]], script)\<close> after
  \<open>get_node_names(vapp, NodeType.MASTER)\<close>.\<close>

definition run_in_first_master :: "env \<Rightarrow> string \<Rightarrow> string \<Rightarrow> unit prog" where
  "run_in_first_master en href script =
     and_then (get_node_names en href (MASTER en))
       (\<lambda>master_node_names. and_then (first_of master_node_names)
          (\<lambda>master. run_script_in_nodes en href [master] script))"

definition drain_script :: "string list \<Rightarrow> string" where
  "drain_script node_names =
     shebang @ concat (map (\<lambda>node_name. ''kubectl drain '' @ node_name
                 @ '' --ignore-daemonsets --timeout=60s --delete-local-data'' @ nl) node_names)"

definition delete_node_script :: "string list \<Rightarrow> string" where
  "delete_node_script node_names =
     shebang @ ''kubectl delete node ''
       @ concat (map (\<lambda>node_name. '' '' @ node_name) node_names) @ nl"

text \<open>Lines 1317 to 1338, \<open>_drain_nodes\<close>: the drain commands run in the first master
  node; a failure is logged as a warning and raised again.\<close>

definition priv_drain_nodes :: "env \<Rightarrow> string \<Rightarrow> string list \<Rightarrow> unit prog" where
  "priv_drain_nodes en href node_names =
     try_except (run_in_first_master en href (drain_script node_names))
       (\<lambda>err. next_do (log LOG_WARNING ''Failed to drain nodes'') (raise err))"

text \<open>Lines 1402 to 1409: each VM is resolved, and its undeploy is attempted.\<close>

definition undeploy_vms :: "env \<Rightarrow> string \<Rightarrow> string list \<Rightarrow> unit prog" where
  "undeploy_vms en href node_names =
     for_each node_names
       (\<lambda>vm_name. next_do (get_vm en href vm_name)
          (try_except (request en (Undeploy vm_name))
             (\<lambda>err. log LOG_WARNING ''Failed to undeploy VM'')))"

text \<open>Lines 1381 to 1414, \<open>_delete_nodes\<close>: \<open>kubectl delete node\<close> in the first master
  node and the undeploy of each VM are attempted and their failures logged; resolving
  each VM and the final removal of all of them are not guarded.\<close>

definition priv_delete_nodes :: "env \<Rightarrow> string \<Rightarrow> string list \<Rightarrow> unit prog" where
  "priv_delete_nodes en href node_names =
     next_do (request en CheckSysadmin)
    (next_do
       (try_except (run_in_first_master en href (delete_node_script node_names))
          (\<lambda>err. log LOG_WARNING ''Failed to delete node(s) using kubectl''))
    (next_do (undeploy_vms en href node_names)
       (delete_vms en href node_names)))"

text \<open>Lines 1072 to 1109, \<open>_delete_nodes_async\<close>.\<close>

definition delete_nodes_async :: "env \<Rightarrow> string \<Rightarrow> string list \<Rightarrow> unit prog" where
  "delete_nodes_async en href node_names_list =
     try_finally
       (try_except
          (run_all
             [update_task en RUNNING None,
              try_except (priv_drain_nodes en href node_names_list)
                (\<lambda>err. if caught_by en [NodeOperationError, ScriptExecutionError] err
                       then log LOG_WARNING ''Failed to drain nodes. Continuing node delete...''
                       else raise err),
              update_task en RUNNING None,
              priv_delete_nodes en href node_names_list,
              update_task en SUCCESS None])
          (\<lambda>err. next_do (log LOG_ERROR ''Unexpected error while deleting nodes'')
                   (update_task en ERROR (Some (str_error err)))))
       context_end"

section \<open>Cluster lookup\<close>

text \<open>
  Lines 1449 to 1580. The cluster dictionary starts from empty strings and takes each
  metadata entry in turn; a vApp is a cluster when it carries a cluster id. The two
  queries see the vApps of the organisations the client may read, so the organisation
  filter is left to the choice of \<open>vapps\<close>. The fall-back that derives the Kubernetes
  version from the template name for old clusters is the parameter \<open>from_name\<close>.
\<close>

fun metadata_entry :: "cluster \<Rightarrow> metadata_key \<times> string \<Rightarrow> cluster" where
  "metadata_entry c (M_CLUSTER_ID, v) = c\<lparr>c_cluster_id := v\<rparr>"
| "metadata_entry c (M_TEMPLATE_NAME, v) = c\<lparr>c_template_name := v\<rparr>"
| "metadata_entry c (M_TEMPLATE_REVISION, v) = c\<lparr>c_template_revision := v\<rparr>"
| "metadata_entry c (M_DOCKER_VERSION, v) = c\<lparr>c_docker_version := v\<rparr>"
| "metadata_entry c (M_KUBERNETES_VERSION, v) = c\<lparr>c_kubernetes_version := v\<rparr>"
| "metadata_entry c (M_CNI, v) = c\<lparr>c_cni := v\<rparr>"
| "metadata_entry c (M_CNI_VERSION, v) = c\<lparr>c_cni_version := v\<rparr>"
| "metadata_entry c (k, v) = c"

definition cluster_of_vapp :: "(string \<Rightarrow> string) \<Rightarrow> vapp \<Rightarrow> cluster" where
  "cluster_of_vapp from_name v =
     (let c = foldl metadata_entry
                \<lparr>c_name = vapp_name v, c_cluster_id = [], c_vapp_href = vapp_href v,
                 c_vdc_href = vapp_vdc_href v, c_template_name = [], c_template_revision = [],
                 c_docker_version = [], c_kubernetes_version = [], c_cni = [],
                 c_cni_version = []\<rparr>
                (vapp_metadata v)
      in if c_kubernetes_version c = []
         then c\<lparr>c_kubernetes_version := from_name (c_template_name c)\<rparr> else c)"

definition query_filter :: "string option \<Rightarrow> string option \<Rightarrow> string option \<Rightarrow> vapp \<Rightarrow> bool" where
  "query_filter cluster_name cluster_id ovdc_name v =
     ((case cluster_id of
         None \<Rightarrow> map_of (vapp_metadata v) M_CLUSTER_ID \<noteq> None
       | Some i \<Rightarrow> map_of (vapp_metadata v) M_CLUSTER_ID = Some i)
      \<and> (case cluster_name of None \<Rightarrow> True | Some n \<Rightarrow> vapp_name v = n)
      \<and> (case ovdc_name of None \<Rightarrow> True | Some d \<Rightarrow> vapp_vdc_name v = d))"

definition get_all_clusters ::
  "env \<Rightarrow> string option \<Rightarrow> string option \<Rightarrow> string option \<Rightarrow> cluster list prog" where
  "get_all_clusters en cluster_name cluster_id ovdc_name =
     next_do (request en QueryClusters)
       (next_do (request en QueryClusters)
          (get_state (\<lambda>w. map (cluster_of_vapp (k8s_version_from_template_name en))
                            (filter (query_filter cluster_name cluster_id ovdc_name) (vapps w)))))"

definition get_cluster ::
  "env \<Rightarrow> string option \<Rightarrow> string option \<Rightarrow> string option \<Rightarrow> cluster prog" where
  "get_cluster en cluster_name cluster_id ovdc_name =
     and_then (get_all_clusters en cluster_name cluster_id ovdc_name)
       (\<lambda>clusters.
          if length clusters > 1 then raise (Error CseDuplicateClusterError ''Found multiple clusters'')
          else if length clusters = 0 then raise (Error ClusterNotFoundError ''Cluster not found.'')
          else succeed (hd clusters))"

section \<open>Requests\<close>

text \<open>
  The payload of a request is a dictionary. The model reads a cluster, organisation or
  VDC name that is a string or \<open>None\<close>, a node-name list that is a list of strings (or a
  string, whose characters Python would iterate), and integer counts; a value of another
  type is reported as \<open>TypeError\<close>. The \<open>@auth.secure\<close> wrapper is not part of the
  functions below.
\<close>

datatype response = Body_empty | Task_started

definition lookup_key :: "payload \<Rightarrow> request_key \<Rightarrow> pyval prog" where
  "lookup_key d k = (case d k of None \<Rightarrow> raise (Error KeyError []) | Some v \<Rightarrow> succeed v)"

definition check_payload :: "env \<Rightarrow> payload \<Rightarrow> request_key list \<Rightarrow> unit prog" where
  "check_payload en d required =
     (case validate_payload en d required of None \<Rightarrow> succeed () | Some e \<Rightarrow> raise e)"

definition as_text :: "pyval \<Rightarrow> string option prog" where
  "as_text v =
     (case v of PyNone \<Rightarrow> succeed None | PyStr s \<Rightarrow> succeed (Some s)
      | _ \<Rightarrow> raise (Error TypeError []))"

definition as_names :: "pyval \<Rightarrow> string list prog" where
  "as_names v =
     (case v of PyList xs \<Rightarrow> succeed xs | PyStr s \<Rightarrow> succeed (map (\<lambda>c. [c]) s)
      | _ \<Rightarrow> raise (Error TypeError []))"


text \<open>The \<open>defaults\<close> dictionaries of the requests.\<close>

definition scope_defaults :: payload where
  "scope_defaults = [ORG_NAME \<mapsto> PyNone, OVDC_NAME \<mapsto> PyNone]"



text \<open>Lines 743 to 807, \<open>delete_nodes\<close>.\<close>

definition delete_nodes :: "env \<Rightarrow> payload \<Rightarrow> bool \<Rightarrow> response prog" where
  "delete_nodes en data telemetry =
     (let validated_data = scope_defaults ++ data in
      next_do (check_payload en validated_data [CLUSTER_NAME, NODE_NAMES_LIST])
     (and_then (lookup_key validated_data CLUSTER_NAME) (\<lambda>cluster_name.
      and_then (lookup_key validated_data NODE_NAMES_LIST) (\<lambda>names.
      and_then (as_names names) (\<lambda>node_names_list.
        if length node_names_list = 0 then succeed Body_empty
        else
          next_do (for_each node_names_list
                     (\<lambda>node. if prefix (MASTER en) node
                             then raise (Error CseServerError
                                          (''Can't delete master node: '' @ quoted node @ ''.''))
                             else succeed ()))
         (and_then (as_text cluster_name) (\<lambda>name.
          and_then (and_then (lookup_key validated_data OVDC_NAME) as_text) (\<lambda>ovdc_name.
          and_then (get_cluster en name None ovdc_name) (\<lambda>cluster.
          next_do (if telemetry then for_each node_names_list (\<lambda>node. request en Telemetry)
                   else succeed ())
         (next_do (update_task en RUNNING None)
         (next_do set_is_async
         (next_do (run_async (delete_nodes_async en (c_vapp_href cluster) node_names_list))
            (succeed Task_started)))))))))))))"


section \<open>Values of a payload\<close>

fun str_nat :: "nat \<Rightarrow> string" where
  "str_nat n =
     (if n < 10 then [char_of (48 + n)] else str_nat (n div 10) @ [char_of (48 + n mod 10)])"

declare str_nat.simps [simp del]

definition str_int :: "int \<Rightarrow> string" where
  "str_int i = (if i < 0 then CHR ''-'' # str_nat (nat (- i)) else str_nat (nat i))"

text \<open>\<open>str(v)\<close>, the truth value of \<open>v\<close>, and \<open>v\<close> as a number in a comparison or a
  \<open>range\<close>. The \<open>repr\<close> of the strings of a list is written for strings without quotes
  or escapes.\<close>

fun py_str :: "pyval \<Rightarrow> string" where
  "py_str PyNone = ''None''"
| "py_str (PyStr s) = s"
| "py_str (PyInt i) = str_int i"
| "py_str (PyBool b) = (if b then ''True'' else ''False'')"
| "py_str (PyList xs) =
     ''['' @ (case xs of [] \<Rightarrow> []
              | y # ys \<Rightarrow> quoted y @ concat (map (\<lambda>z. '', '' @ quoted z) ys)) @ '']''"

fun truthy :: "pyval \<Rightarrow> bool" where
  "truthy PyNone = False"
| "truthy (PyStr s) = (s \<noteq> [])"
| "truthy (PyInt i) = (i \<noteq> 0)"
| "truthy (PyBool b) = b"
| "truthy (PyList xs) = (xs \<noteq> [])"

definition as_int :: "pyval \<Rightarrow> int prog" where
  "as_int v =
     (case v of PyInt i \<Rightarrow> succeed i | PyBool b \<Rightarrow> succeed (if b then 1 else 0)
      | _ \<Rightarrow> raise (Error TypeError []))"

definition data_get :: "payload \<Rightarrow> request_key \<Rightarrow> pyval" where
  "data_get d k = (case d k of None \<Rightarrow> PyNone | Some v \<Rightarrow> v)"

section \<open>Templates\<close>

text \<open>Lines 1583 to 1593, \<open>get_template\<close>.\<close>

definition get_template :: "env \<Rightarrow> pyval \<Rightarrow> pyval \<Rightarrow> template prog" where
  "get_template en name revision =
     (if (name = PyNone \<and> revision \<noteq> PyNone) \<or> (name \<noteq> PyNone \<and> revision = PyNone)
      then raise (Error ValueError
             ''If template revision is specified, then template name must also be specified (and vice versa).'')
      else
        (let name' = (if truthy name then name else PyStr (broker_default_template_name en));
             revision' = (if truthy revision then revision
                          else PyStr (broker_default_template_revision en))
         in case find (\<lambda>t. PyStr (t_name t) = name' \<and> t_revision t = py_str revision')
                   (broker_templates en) of
              Some t \<Rightarrow> succeed t
            | None \<Rightarrow> raise (Error Exception (''Template '' @ quoted (py_str name')
                        @ '' at revision '' @ py_str revision' @ '' not found.''))))"

section \<open>Node provisioning\<close>

text \<open>The clone specification of one VM, as \<open>add_nodes\<close> builds it (the constant entries
  \<open>password_auto\<close> and \<open>ip_allocation_mode\<close> and the source vApp resource are left out).\<close>

record spec =
  source_vm_name :: string
  target_vm_name :: string
  hostname :: string
  network :: string
  cust_script :: "string option"
  storage_profile :: "string option"

text \<open>
  Lines 1640 to 1645: names are drawn until \<open>vapp.get_vm(name)\<close> raises. The loop has no
  bound; it is modelled on the supply \<open>rand\<close>, and a supply that runs out before a free
  name is drawn is the loop that never ends.
\<close>

fun pick_name_from :: "env \<Rightarrow> string \<Rightarrow> string \<Rightarrow> string list \<Rightarrow> string prog" where
  "pick_name_from en href node_type [] w = (Hang, w)"
| "pick_name_from en href node_type (r # rs) w =
     (let name = node_type @ ''-'' @ r
      in case get_vm en href name (w\<lparr>rand := rs\<rparr>) of
           (Return u, w') \<Rightarrow> pick_name_from en href node_type rs w'
         | (Raise e, w') \<Rightarrow> (Return name, w')
         | (Hang, w') \<Rightarrow> (Hang, w'))"

definition pick_name :: "env \<Rightarrow> string \<Rightarrow> string \<Rightarrow> string prog" where
  "pick_name en href node_type w = pick_name_from en href node_type (rand w) w"

text \<open>Lines 1638 to 1659: the loop that appends one specification per node to \<open>specs\<close>.\<close>

fun build_specs ::
  "env \<Rightarrow> string \<Rightarrow> string \<Rightarrow> (string \<Rightarrow> spec) \<Rightarrow> nat \<Rightarrow> spec list \<Rightarrow> spec list prog" where
  "build_specs en href node_type mk 0 specs = succeed specs"
| "build_specs en href node_type mk (Suc n) specs =
     and_then (try_except (pick_name en href node_type)
                 (\<lambda>err. raise (NodeCreationFailure (map target_vm_name specs) (str_error err))))
       (\<lambda>name. build_specs en href node_type mk n (specs @ [mk name]))"

text \<open>\<open>vapp.add_vms(specs, power_on=False)\<close> and its wait.\<close>

definition add_vms :: "env \<Rightarrow> string \<Rightarrow> string list \<Rightarrow> unit prog" where
  "add_vms en href names =
     and_then (get_state (find_vapp href))
       (\<lambda>r. case r of
               None \<Rightarrow> next_do (request en (AddVms href names))
                         (raise (Error EntityNotFoundException []))
             | Some v \<Rightarrow>
                 call en (AddVms href names)
                   (change_vapp href (\<lambda>v. v\<lparr>vapp_vms := vapp_vms v @ names\<rparr>)))"

text \<open>Lines 1670 to 1699: what is done to each new VM, one VM after the other.\<close>

definition configure_node ::
  "env \<Rightarrow> string \<Rightarrow> string \<Rightarrow> template \<Rightarrow> pyval \<Rightarrow> pyval \<Rightarrow> spec \<Rightarrow> unit prog" where
  "configure_node en href node_type template num_cpu memory_in_mb sp =
     (let vm_name = target_vm_name sp in
      run_all
        [get_vm en href vm_name,
         request en (ModifyCpu vm_name num_cpu),
         request en (ModifyMemory vm_name memory_in_mb),
         request en (PowerOn vm_name),
         request en (ReloadVapp href),
         if node_type = NFS en then
           next_do (request en (ReadScript (t_name template) (t_revision template) SF_NFSD))
             (and_then
                (execute_script_in_nodes en [vm_name]
                   (script_text en (t_name template) (t_revision template) SF_NFSD) True)
                (\<lambda>exec_results.
                   if get_script_execution_errors exec_results \<noteq> []
                   then raise (Error ScriptExecutionError
                                 (''NFSD script execution failed on node '' @ vm_name))
                   else succeed ()))
         else succeed ()])"

text \<open>
  Lines 1602 to 1704, the \<open>try\<close> statement of \<open>add_nodes\<close>. The list \<open>specs\<close> is a
  local variable that the \<open>except\<close> clause reads, so each part of the \<open>try\<close> block is
  guarded with the value \<open>specs\<close> has while it runs: empty until the naming loop,
  growing inside it, complete after it.
\<close>

definition node_creation_error :: "spec list \<Rightarrow> error \<Rightarrow> 'a prog" where
  "node_creation_error specs err =
     raise (NodeCreationFailure (map target_vm_name specs) (str_error err))"

definition add_nodes_try ::
  "env \<Rightarrow> pyval \<Rightarrow> string \<Rightarrow> string \<Rightarrow> string \<Rightarrow> template \<Rightarrow> string \<Rightarrow> pyval \<Rightarrow> pyval
     \<Rightarrow> string option \<Rightarrow> string option \<Rightarrow> spec list prog" where
  "add_nodes_try en num_nodes node_type href catalog_name template network_name num_cpu
     memory_in_mb storage_profile_name ssh_key =
     and_then
       (try_except
          (run_all
             [request en GetOrg,
              request en (GetCatalogItem catalog_name (t_catalog_item_name template)),
              request en GetSourceVm,
              (case storage_profile_name of None \<Rightarrow> succeed ()
               | Some p \<Rightarrow> request en (GetStorageProfile p)),
              request en (ReloadVapp href)])
          (node_creation_error []))
    (\<lambda>u.
     (let cust = (case ssh_key of None \<Rightarrow> None
                  | Some k \<Rightarrow> Some (shebang
                      @ ''if [ x$1=x\"postcustomization\" ];'' @ nl @ ''then'' @ nl
                      @ ''mkdir -p /root/.ssh'' @ nl
                      @ ''echo '' @ quoted k @ '' >> /root/.ssh/authorized_keys'' @ nl
                      @ ''chmod -R go-rwx /root/.ssh'' @ nl @ ''fi''));
          mk = (\<lambda>name. \<lparr>source_vm_name =
                           source_vm en catalog_name (t_catalog_item_name template),
                         target_vm_name = name,
                         hostname = name, network = network_name, cust_script = cust,
                         storage_profile = storage_profile_name\<rparr>)
      in
     and_then
       (and_then (try_except (as_int num_nodes) (node_creation_error []))
          (\<lambda>n. build_specs en href node_type mk (nat n) []))
    (\<lambda>specs.
     next_do
       (try_except
          (run_all
             [add_vms en href (map target_vm_name specs),
              request en (ReloadVapp href),
              for_each specs
                (configure_node en href node_type template
                   (if \<not> truthy num_cpu then PyInt (int (t_cpu template)) else num_cpu)
                   (if \<not> truthy memory_in_mb then PyInt (int (t_memory template))
                    else memory_in_mb))])
          (node_creation_error specs))
       (succeed specs))))"

text \<open>Lines 1596 to 1707, \<open>add_nodes\<close>: the check of the client before the \<open>try\<close>
  statement and the reload after it are outside its guard.\<close>

definition add_nodes ::
  "env \<Rightarrow> pyval \<Rightarrow> string \<Rightarrow> string \<Rightarrow> string \<Rightarrow> template \<Rightarrow> string \<Rightarrow> pyval \<Rightarrow> pyval
     \<Rightarrow> string option \<Rightarrow> string option \<Rightarrow> spec list prog" where
  "add_nodes en num_nodes node_type href catalog_name template network_name num_cpu
     memory_in_mb storage_profile_name ssh_key =
     next_do (request en CheckSysadmin)
       (and_then
          (add_nodes_try en num_nodes node_type href catalog_name template network_name
             num_cpu memory_in_mb storage_profile_name ssh_key)
          (\<lambda>specs. next_do (request en (ReloadVapp href)) (succeed specs)))"

section \<open>Bootstrap protocol\<close>

text \<open>\<open>str.split()\<close> without a separator: the words between runs of white space.\<close>

definition is_space :: "char \<Rightarrow> bool" where
  "is_space c = (of_char c \<in> set [9, 10, 11, 12, 13, 28, 29, 30, 31, 32, 133, 160 :: nat])"

fun words_acc :: "string \<Rightarrow> string \<Rightarrow> string list" where
  "words_acc cur [] = (if cur = [] then [] else [cur])"
| "words_acc cur (c # cs) =
     (if is_space c then (if cur = [] then words_acc [] cs else cur # words_acc [] cs)
      else words_acc (cur @ [c]) cs)"

definition py_words :: "string \<Rightarrow> string list" where
  "py_words s = words_acc [] s"

definition item :: "'a list \<Rightarrow> nat \<Rightarrow> 'a prog" where
  "item xs i = (if i < length xs then succeed (xs ! i) else raise (Error IndexError []))"

definition token_script :: string where
  "token_script = shebang @ ''kubeadm token create'' @ nl
                    @ ''ip route get 1 | awk '' @ quoted ''{print $NF;exit}'' @ nl"

definition ip_script :: string where
  "ip_script = shebang @ ''ip route get 1 | awk '' @ quoted ''{print $NF;exit}'' @ nl"

text \<open>Lines 1726 to 1745, \<open>get_master_ip\<close>.\<close>

definition get_master_ip :: "env \<Rightarrow> string \<Rightarrow> string prog" where
  "get_master_ip en href =
     next_do (request en CheckSysadmin)
    (and_then (get_node_names en href (MASTER en)) (\<lambda>node_names.
     and_then (execute_script_in_nodes en node_names ip_script False) (\<lambda>result.
       if get_script_execution_errors result \<noteq> []
       then raise (Error ScriptExecutionError
                     ''Get master IP script execution failed on master node'')
       else and_then (item result 0)
              (\<lambda>r. item (py_words (fst (snd r))) 0))))"

text \<open>Lines 1748 to 1770, \<open>init_cluster\<close>.\<close>

definition init_cluster :: "env \<Rightarrow> string \<Rightarrow> string \<Rightarrow> string \<Rightarrow> unit prog" where
  "init_cluster en href template_name template_revision =
     next_do (request en CheckSysadmin)
       (try_except
          (next_do (request en (ReadScript template_name template_revision SF_MASTER))
          (and_then (get_node_names en href (MASTER en)) (\<lambda>node_names.
           and_then (execute_script_in_nodes en node_names
                       (script_text en template_name template_revision SF_MASTER) True)
             (\<lambda>result.
                if get_script_execution_errors result \<noteq> []
                then raise (Error ScriptExecutionError
                              ''Initialize cluster script execution failed on node'')
                else and_then (item result 0)
                       (\<lambda>r. if fst r \<noteq> 0
                            then raise (Error ClusterInitializationError
                                          (''Couldn't initialize cluster:'' @ nl @ snd (snd r)))
                            else succeed ())))))
          (\<lambda>err. next_do (log LOG_ERROR (str_error err))
                   (raise (Error ClusterInitializationError
                             (''Couldn't initialize cluster: '' @ str_error err)))))"

text \<open>Lines 1773 to 1807, \<open>join_cluster\<close>. \<open>tmp_script.format(token=..., ip=...)\<close> is
  the parameter \<open>format_script\<close>.\<close>

definition join_cluster ::
  "env \<Rightarrow> string \<Rightarrow> string \<Rightarrow> string \<Rightarrow> string list option \<Rightarrow> unit prog" where
  "join_cluster en href template_name template_revision target_nodes =
     next_do (request en CheckSysadmin)
    (and_then (get_node_names en href (MASTER en)) (\<lambda>node_names.
     and_then (execute_script_in_nodes en node_names token_script True) (\<lambda>master_result.
       if get_script_execution_errors master_result \<noteq> []
       then raise (Error ScriptExecutionError
                     ''Join cluster script execution failed on master node'')
       else
         and_then (item master_result 0) (\<lambda>r0.
         (let init_info = py_words (fst (snd r0)) in
          and_then (get_node_names en href (WORKER en)) (\<lambda>worker_names.
          (let node_names = (case target_nodes of None \<Rightarrow> worker_names
                             | Some ts \<Rightarrow> filter (\<lambda>name. name \<in> set ts) worker_names)
           in
          next_do (request en (ReadScript template_name template_revision SF_NODE))
         (and_then (item init_info 0) (\<lambda>token.
          and_then (item init_info 1) (\<lambda>ip.
          and_then (execute_script_in_nodes en node_names
                      (format_script en
                         (script_text en template_name template_revision SF_NODE) token ip)
                      True)
            (\<lambda>worker_results.
               if get_script_execution_errors worker_results \<noteq> []
               then raise (Error ScriptExecutionError
                             ''Join cluster script execution failed on worker node'')
               else for_each worker_results
                      (\<lambda>result. if fst result \<noteq> 0
                                 then raise (Error ClusterJoiningError
                                               (''Couldn't join cluster:'' @ nl
                                                @ snd (snd result)))
                                 else succeed ()))))))))))))"

section \<open>Deleting a vApp\<close>

text \<open>\<open>vdc.delete_vapp(name, force=True)\<close> and its wait: the VDC must hold exactly one
  vApp of that name.\<close>

definition vdc_delete_vapp :: "env \<Rightarrow> string \<Rightarrow> string \<Rightarrow> unit prog" where
  "vdc_delete_vapp en vdc name =
     and_then (get_state (\<lambda>w. filter (\<lambda>v. vapp_vdc_href v = vdc \<and> vapp_name v = name) (vapps w)))
       (\<lambda>found.
          if length found = 1
          then call en (DeleteVapp vdc name)
                 (\<lambda>w. w\<lparr>vapps := filter (\<lambda>v. \<not> (vapp_vdc_href v = vdc \<and> vapp_name v = name))
                                    (vapps w)\<rparr>)
          else next_do (request en (DeleteVapp vdc name))
                 (raise (Error EntityNotFoundException [])))"

text \<open>Lines 1366 to 1378, \<open>_delete_vapp\<close>.\<close>

definition priv_delete_vapp :: "env \<Rightarrow> string \<Rightarrow> string \<Rightarrow> unit prog" where
  "priv_delete_vapp en vdc name =
     try_except (vdc_delete_vapp en vdc name)
       (\<lambda>err. next_do (log LOG_WARNING ''Failed to delete vapp'') (raise err))"

section \<open>Creating nodes in an existing cluster\<close>




section \<open>Cluster information and resize\<close>

text \<open>Lines 59 to 113, \<open>get_cluster_info\<close>: the cluster, and the names of its master,
  worker and NFS nodes in the order of the VMs (a node's IP address is looked up and a
  failure to find it ignored).\<close>

record cluster_info =
  info_cluster :: cluster
  master_nodes :: "string list"
  nodes :: "string list"
  nfs_nodes :: "string list"

fun classify_vms :: "env \<Rightarrow> string list \<Rightarrow> cluster_info \<Rightarrow> cluster_info prog" where
  "classify_vms en [] info = succeed info"
| "classify_vms en (vm # vms) info =
     next_do (try_except (request en (GetPrimaryIp vm)) (\<lambda>err. succeed ()))
       (classify_vms en vms
          (if prefix (MASTER en) vm then info\<lparr>master_nodes := master_nodes info @ [vm]\<rparr>
           else if prefix (WORKER en) vm then info\<lparr>nodes := nodes info @ [vm]\<rparr>
           else if prefix (NFS en) vm then info\<lparr>nfs_nodes := nfs_nodes info @ [vm]\<rparr>
           else info))"

definition get_cluster_info :: "env \<Rightarrow> payload \<Rightarrow> bool \<Rightarrow> cluster_info prog" where
  "get_cluster_info en data telemetry =
     (let validated_data = scope_defaults ++ data in
      next_do (check_payload en validated_data [CLUSTER_NAME])
     (and_then (lookup_key validated_data CLUSTER_NAME) (\<lambda>cluster_name.
      and_then (as_text cluster_name) (\<lambda>name.
      and_then (as_text (data_get validated_data OVDC_NAME)) (\<lambda>ovdc_name.
      and_then (get_cluster en name None ovdc_name) (\<lambda>cluster.
      next_do (if telemetry then request en Telemetry else succeed ())
     (and_then (get_all_vms en (c_vapp_href cluster)) (\<lambda>vms.
        classify_vms en vms
          \<lparr>info_cluster = cluster, master_nodes = [], nodes = [], nfs_nodes = []\<rparr>))))))))"




section \<open>Creating a cluster\<close>

text \<open>The keyword arguments of \<open>_create_cluster_async\<close>.\<close>

record create_args =
  ca_ovdc_name :: string
  ca_cluster_name :: string
  ca_cluster_id :: string
  ca_template_name :: pyval
  ca_template_revision :: pyval
  ca_num_workers :: pyval
  ca_network_name :: string
  ca_num_cpu :: pyval
  ca_mb_memory :: pyval
  ca_storage_profile_name :: "string option"
  ca_ssh_key :: "string option"
  ca_enable_nfs :: pyval
  ca_rollback :: pyval

text \<open>\<open>vdc.create_vapp\<close>: the new vApp has no metadata and no VM; its reference is
  returned. \<open>vapp.set_multiple_metadata\<close> and \<open>vapp.set_metadata\<close>, with their waits,
  overwrite the entries of the keys given.\<close>

definition create_vapp :: "env \<Rightarrow> string \<Rightarrow> string \<Rightarrow> string prog" where
  "create_vapp en ovdc_name name =
     and_then (get_state clock) (\<lambda>n.
       next_do
         (call en (CreateVapp name)
            (\<lambda>w. w\<lparr>vapps := vapps w @
                      [\<lparr>vapp_name = name, vapp_href = new_href en n,
                        vapp_vdc_href = vdc_href_of en ovdc_name, vapp_vdc_name = ovdc_name,
                        vapp_metadata = [], vapp_vms = []\<rparr>]\<rparr>))
         (succeed (new_href en n)))"

definition set_metadata :: "env \<Rightarrow> string \<Rightarrow> (metadata_key \<times> string) list \<Rightarrow> unit prog" where
  "set_metadata en href tags =
     and_then (get_state (find_vapp href))
       (\<lambda>r. case r of
               None \<Rightarrow> next_do (request en (SetMetadata href tags))
                         (raise (Error EntityNotFoundException []))
             | Some v \<Rightarrow>
                 call en (SetMetadata href tags)
                   (change_vapp href
                      (\<lambda>v. v\<lparr>vapp_metadata :=
                                filter (\<lambda>kv. fst kv \<notin> set (map fst tags)) (vapp_metadata v)
                                @ tags\<rparr>)))"

text \<open>Lines 817 to 948: the \<open>try\<close> block of \<open>_create_cluster_async\<close>.\<close>

definition create_cluster_body :: "env \<Rightarrow> create_args \<Rightarrow> unit prog" where
  "create_cluster_body en a =
     next_do (request en GetOrg)
    (next_do (request en GetVdc)
    (next_do (update_task en RUNNING None)
    (and_then
       (try_except (create_vapp en (ca_ovdc_name a) (ca_cluster_name a))
          (\<lambda>err. raise (Error ClusterOperationError
                           (''Error while creating vApp: '' @ str_error err))))
    (\<lambda>href.
     next_do (request en WaitForStatus)
    (and_then (get_template en (ca_template_name a) (ca_template_revision a)) (\<lambda>template.
     (let master_or_worker =
            (\<lambda>count node_type.
               add_nodes en count node_type href (broker_catalog en) template
                 (ca_network_name a) (ca_num_cpu a) (ca_mb_memory a)
                 (ca_storage_profile_name a) (ca_ssh_key a))
      in
     run_all
       [set_metadata en href
          [(M_CLUSTER_ID, ca_cluster_id a), (M_CSE_VERSION, cse_version en),
           (M_TEMPLATE_NAME, t_name template), (M_TEMPLATE_REVISION, t_revision template),
           (M_OS, t_os template), (M_DOCKER_VERSION, t_docker_version template),
           (M_KUBERNETES, t_kubernetes template),
           (M_KUBERNETES_VERSION, t_kubernetes_version template),
           (M_CNI, t_cni template), (M_CNI_VERSION, t_cni_version template)],
        update_task en RUNNING None,
        request en (ReloadVapp href),
        try_except (next_do (master_or_worker (PyInt 1) (MASTER en)) (succeed ()))
          (\<lambda>err. raise (Error MasterNodeCreationError
                           (''Error adding master node:'' @ str_error err))),
        update_task en RUNNING None,
        request en (ReloadVapp href),
        init_cluster en href (t_name template) (t_revision template),
        and_then (get_master_ip en href)
          (\<lambda>master_ip. set_metadata en href [(M_MASTER_IP, master_ip)]),
        update_task en RUNNING None,
        try_except (next_do (master_or_worker (ca_num_workers a) (WORKER en)) (succeed ()))
          (\<lambda>err. raise (Error WorkerNodeCreationError
                           (''Error creating worker node:'' @ str_error err))),
        update_task en RUNNING None,
        request en (ReloadVapp href),
        join_cluster en href (t_name template) (t_revision template) None,
        if truthy (ca_enable_nfs a) then
          next_do (update_task en RUNNING None)
            (try_except (next_do (master_or_worker (PyInt 1) (NFS en)) (succeed ()))
               (\<lambda>err. raise (Error NFSNodeCreationError
                                (''Error creating NFS node:'' @ str_error err))))
        else succeed (),
        update_task en SUCCESS None])))))))"

text \<open>Lines 957 to 967: the rollback, whose own failure is logged and goes no further.\<close>

definition rollback_attempt :: "env \<Rightarrow> create_args \<Rightarrow> unit prog" where
  "rollback_attempt en a =
     and_then (get_cluster en (Some (ca_cluster_name a)) (Some (ca_cluster_id a))
                 (Some (ca_ovdc_name a)))
       (\<lambda>cluster. priv_delete_vapp en (c_vdc_href cluster) (ca_cluster_name a))"

definition create_cluster_rollback :: "env \<Rightarrow> create_args \<Rightarrow> unit prog" where
  "create_cluster_rollback en a =
     try_except (rollback_attempt en a) (\<lambda>err. log LOG_ERROR ''Failed to delete cluster'')"

text \<open>Lines 949 to 977: the two \<open>except\<close> clauses.\<close>

definition recognized :: "env \<Rightarrow> error \<Rightarrow> bool" where
  "recognized en err =
     caught_by en
       [MasterNodeCreationError, WorkerNodeCreationError, NFSNodeCreationError,
        ClusterJoiningError, ClusterInitializationError, ClusterOperationError] err"

definition create_cluster_handler :: "env \<Rightarrow> create_args \<Rightarrow> error \<Rightarrow> unit prog" where
  "create_cluster_handler en a err =
     (if recognized en err then
        next_do
          (if truthy (ca_rollback a) then
             next_do (update_task en RUNNING None)
            (next_do (log LOG_INFO ''Error creating cluster. Deleting cluster (rollback=True)'')
               (create_cluster_rollback en a))
           else succeed ())
       (next_do (log LOG_ERROR ''Error creating cluster'')
          (update_task en ERROR (Some (str_error err))))
      else
        next_do (log LOG_ERROR ''Unknown error creating cluster'')
          (update_task en ERROR (Some (str_error err))))"

text \<open>Lines 811 to 979, \<open>_create_cluster_async\<close>.\<close>

definition create_cluster_async :: "env \<Rightarrow> create_args \<Rightarrow> unit prog" where
  "create_cluster_async en a =
     try_finally (try_except (create_cluster_body en a) (create_cluster_handler en a))
       context_end"


section \<open>States reached by the task tracker and the logger\<close>

text \<open>The state after a task update that the tracker accepts, and after a log entry.\<close>

definition after_update_task :: "task_status \<Rightarrow> string option \<Rightarrow> world \<Rightarrow> world" where
  "after_update_task status error_message w =
     w\<lparr>trace := trace w @ [Called (UpdateTask status)], clock := Suc (clock w),
       task_resource := Some (status, error_message)\<rparr>"

definition after_log :: "log_level \<Rightarrow> string \<Rightarrow> world \<Rightarrow> world" where
  "after_log lvl msg w = w\<lparr>trace := trace w @ [Logged lvl msg]\<rparr>"

text \<open>A program that only appends to the trace.\<close>

definition grows :: "'a prog \<Rightarrow> bool" where
  "grows m = (\<forall>w r w'. m w = (r, w') \<longrightarrow> (\<exists>evs. trace w' = trace w @ evs))"

text \<open>A program that leaves a component \<open>f\<close> of the state as it was.\<close>

definition keeps :: "(world \<Rightarrow> 'b) \<Rightarrow> 'a prog \<Rightarrow> bool" where
  "keeps f m = (\<forall>w r w'. m w = (r, w') \<longrightarrow> f w' = f w)"

section \<open>A concrete installation\<close>

text \<open>
  An environment and a state to run the model on: two revisions of one template and a
  second template, the node-type prefixes \<open>mstr\<close>, \<open>node\<close> and \<open>nfsd\<close>, a payload
  check that wants every required key present and not \<open>None\<close>, exception classes without
  superclasses, an infrastructure that never fails and guests whose scripts exit with 0.
\<close>

definition photon_rev1 :: template where
  "photon_rev1 =
     \<lparr>t_name = ''photon-v2'', t_revision = ''1'', t_catalog_item_name = ''photon-v2_rev1'',
      t_os = ''photon-v2'', t_docker_version = ''18.06.2'', t_kubernetes = ''upstream'',
      t_kubernetes_version = ''1.14.0'', t_cni = ''weave'', t_cni_version = ''2.3.0'',
      t_cpu = 2, t_memory = 2048, t_upgrade_from = []\<rparr>"

definition photon_rev2 :: template where
  "photon_rev2 =
     \<lparr>t_name = ''photon-v2'', t_revision = ''2'', t_catalog_item_name = ''photon-v2_rev2'',
      t_os = ''photon-v2'', t_docker_version = ''18.06.2'', t_kubernetes = ''upstream'',
      t_kubernetes_version = ''1.15.0'', t_cni = ''weave'', t_cni_version = ''2.5.2'',
      t_cpu = 2, t_memory = 2048, t_upgrade_from = [''photon-v2'']\<rparr>"

definition ubuntu_rev1 :: template where
  "ubuntu_rev1 =
     \<lparr>t_name = ''ubuntu-16.04'', t_revision = ''1'', t_catalog_item_name = ''ubuntu_rev1'',
      t_os = ''ubuntu-16.04'', t_docker_version = ''18.09.7'', t_kubernetes = ''upstream'',
      t_kubernetes_version = ''1.13.5'', t_cni = ''weave'', t_cni_version = ''2.3.0'',
      t_cpu = 2, t_memory = 2048, t_upgrade_from = [''photon-v2'', ''ubuntu-16.04'']\<rparr>"

text \<open>The cluster dictionary of the demo cluster once its metadata carries the versions of a
  template, as written at creation (lines 842 to 853) and after an upgrade (lines 1242 to
  1249).\<close>

definition cluster_at :: "template \<Rightarrow> cluster" where
  "cluster_at t =
     \<lparr>c_name = ''demo'', c_cluster_id = ''id-1'', c_vapp_href = ''vapp/demo'',
      c_vdc_href = ''vdc/ovdc1'', c_template_name = t_name t,
      c_template_revision = t_revision t, c_docker_version = t_docker_version t,
      c_kubernetes_version = t_kubernetes_version t, c_cni = t_cni t,
      c_cni_version = t_cni_version t\<rparr>"

definition required_present :: "payload \<Rightarrow> request_key list \<Rightarrow> error option" where
  "required_present d required =
     (if list_all (\<lambda>k. case d k of None \<Rightarrow> False | Some PyNone \<Rightarrow> False | Some v \<Rightarrow> True)
           required
      then None else Some (Error BadRequestError ''Missing required keys''))"

definition quiet_env :: env where
  "quiet_env =
     \<lparr>broker_templates = [photon_rev1, photon_rev2, ubuntu_rev1],
      broker_default_template_name = ''photon-v2'',
      broker_default_template_revision = ''1'',
      broker_catalog = ''cse'',
      cse_version = ''2.6.0'',
      MASTER = ''mstr'', WORKER = ''node'', NFS = ''nfsd'',
      validate_payload = required_present,
      ancestors = (\<lambda>c. []),
      faults = (\<lambda>n x. None),
      guest_output = (\<lambda>n node. (0, ''abcdef.0123456789abcdef 10.0.0.2'', [])),
      script_text = (\<lambda>name revision file. ''script''),
      k8s_version_from_template_name = (\<lambda>name. ''0.0.0''),
      format_script = (\<lambda>script token ip. script @ '' '' @ token @ '' '' @ ip),
      source_vm = (\<lambda>catalog_name item_name. item_name),
      vdc_href_of = (\<lambda>name. ''vdc/'' @ name),
      new_href = (\<lambda>n. ''vapp/'' @ str_nat n)\<rparr>"

text \<open>The same installation where the requests listed fail, each with its exception.\<close>

definition failing_env :: "(op \<times> error) list \<Rightarrow> env" where
  "failing_env fs = quiet_env\<lparr>faults := (\<lambda>n x. map_of fs x)\<rparr>"

text \<open>The same installation where, besides, request number \<open>k\<close> fails with \<open>e\<close>,
  whatever that request is.\<close>

definition failing_at_env :: "nat \<Rightarrow> error \<Rightarrow> (op \<times> error) list \<Rightarrow> env" where
  "failing_at_env k e fs =
     quiet_env\<lparr>faults := (\<lambda>n x. if n = k then Some e else map_of fs x)\<rparr>"

text \<open>The same installation where the script run as request number \<open>k\<close> exits with
  status 1.\<close>

definition script_failing_env :: "nat \<Rightarrow> env" where
  "script_failing_env k =
     quiet_env\<lparr>guest_output :=
       (\<lambda>n node. if n = k then (1, [], ''error: cannot evict pod'') else (0, [], []))\<rparr>"

definition demo_vapp :: vapp where
  "demo_vapp =
     \<lparr>vapp_name = ''demo'', vapp_href = ''vapp/demo'', vapp_vdc_href = ''vdc/ovdc1'',
      vapp_vdc_name = ''ovdc1'',
      vapp_metadata = [(M_CLUSTER_ID, ''id-1''), (M_TEMPLATE_NAME, ''photon-v2''),
                       (M_TEMPLATE_REVISION, ''1''), (M_DOCKER_VERSION, ''18.06.2''),
                       (M_KUBERNETES_VERSION, ''1.14.0''), (M_CNI, ''weave''),
                       (M_CNI_VERSION, ''2.3.0'')],
      vapp_vms = [''mstr-x1y2'', ''node-ab12'', ''node-cd34'']\<rparr>"

definition demo_world :: world where
  "demo_world =
     \<lparr>vapps = [demo_vapp], task_resource = None, trace = [], clock = 0,
      rand = [''ab12'', ''ef56'', ''gh78'', ''ij90''], is_async = False, ended = False\<rparr>"

definition empty_world :: world where
  "empty_world =
     \<lparr>vapps = [], task_resource = None, trace = [], clock = 0,
      rand = [''x1y2'', ''ab12'', ''cd34'', ''ef56''], is_async = False, ended = False\<rparr>"

definition demo_create_args :: "bool \<Rightarrow> create_args" where
  "demo_create_args rollback =
     \<lparr>ca_ovdc_name = ''ovdc1'', ca_cluster_name = ''demo'', ca_cluster_id = ''id-1'',
      ca_template_name = PyStr ''photon-v2'', ca_template_revision = PyInt 1,
      ca_num_workers = PyInt 2, ca_network_name = ''net1'', ca_num_cpu = PyNone,
      ca_mb_memory = PyNone, ca_storage_profile_name = None, ca_ssh_key = None,
      ca_enable_nfs = PyBool False, ca_rollback = PyBool rollback\<rparr>"

section \<open>Properties of the semantic-version order\<close>

lemma identifier_lt_irrefl: "\<not> identifier_lt x x"
  by (cases x) auto

lemma identifier_lt_total: "x \<noteq> y \<Longrightarrow> identifier_lt x y \<or> identifier_lt y x"
  by (cases x; cases y) auto

lemma identifier_lt_asym: "identifier_lt x y \<Longrightarrow> \<not> identifier_lt y x"
  by (cases x; cases y) auto

lemma identifiers_lt_irrefl: "\<not> identifiers_lt xs xs"
  by (induction xs) auto

lemma identifiers_lt_total: "xs \<noteq> ys \<Longrightarrow> identifiers_lt xs ys \<or> identifiers_lt ys xs"
  by (induction xs ys rule: identifiers_lt.induct) (auto dest: identifier_lt_total)

lemma identifiers_lt_asym: "identifiers_lt xs ys \<Longrightarrow> \<not> identifiers_lt ys xs"
  by (induction xs ys rule: identifiers_lt.induct) (auto dest: identifier_lt_asym split: if_splits)

lemma prerelease_key_lt_irrefl: "\<not> prerelease_key_lt p p"
  by (simp add: prerelease_key_lt_def identifiers_lt_irrefl)

lemma prerelease_key_lt_total: "p \<noteq> q \<Longrightarrow> prerelease_key_lt p q \<or> prerelease_key_lt q p"
  using identifiers_lt_total [of p q] by (auto simp: prerelease_key_lt_def)

lemma prerelease_key_lt_asym: "prerelease_key_lt p q \<Longrightarrow> \<not> prerelease_key_lt q p"
  using identifiers_lt_asym [of p q] by (auto simp: prerelease_key_lt_def split: if_splits)

lemma precedence_key_lt_irrefl: "\<not> precedence_key_lt v v"
  by (simp add: precedence_key_lt_def prerelease_key_lt_irrefl)

lemma version_ge_iff_not_lt: "version_ge a b \<longleftrightarrow> \<not> precedence_key_lt a b"
proof -
  have "prerelease a \<noteq> prerelease b \<Longrightarrow>
        prerelease_key_lt (prerelease a) (prerelease b) \<or> prerelease_key_lt (prerelease b) (prerelease a)"
    by (rule prerelease_key_lt_total)
  moreover have "prerelease_key_lt (prerelease a) (prerelease b) \<Longrightarrow>
        \<not> prerelease_key_lt (prerelease b) (prerelease a)"
    by (rule prerelease_key_lt_asym)
  moreover have "\<not> prerelease_key_lt (prerelease a) (prerelease a)"
    by (rule prerelease_key_lt_irrefl)
  ultimately show ?thesis
    unfolding version_ge_def precedence_key_lt_def precedence_key_eq_def
    by (metis nat_neq_iff not_less_iff_gr_or_eq)
qed

section \<open>Upgrade decision\<close>

text \<open>
  Claim C2, as the code has it. When the cluster's recorded docker, Kubernetes and CNI
  version strings equal those of the target template and the two version strings parse,
  the decision logic marks neither docker nor CNI, and it marks Kubernetes: the comparison
  for Kubernetes is \<open>>=\<close>, so the Kubernetes upgrade steps run again on every repetition.
\<close>

theorem upgrade_decision_same_versions:
  assumes "c_docker_version c = t_docker_version t"
    and "c_kubernetes_version c = t_kubernetes_version t"
    and "c_cni_version c = t_cni_version t"
    and "semver (t_kubernetes_version t) = Some vk"
    and "semver (t_cni_version t) = Some vc"
  shows "upgrade_decision semver c t =
           Inr \<lparr>upgrade_docker = False, upgrade_k8s = True, upgrade_cni = False\<rparr>"
  using assms
  by (simp add: upgrade_decision_def version_ge_def version_gt_def precedence_key_eq_def
        precedence_key_lt_irrefl)

theorem upgrade_decision_same_versions_witness:
  "c_docker_version (cluster_at photon_rev2) = t_docker_version photon_rev2
   \<and> c_kubernetes_version (cluster_at photon_rev2) = t_kubernetes_version photon_rev2
   \<and> c_cni_version (cluster_at photon_rev2) = t_cni_version photon_rev2
   \<and> plain_version (t_kubernetes_version photon_rev2)
       = Some \<lparr>major = 1, minor = 15, patch = 0, prerelease = [], build = []\<rparr>
   \<and> plain_version (t_cni_version photon_rev2)
       = Some \<lparr>major = 2, minor = 5, patch = 2, prerelease = [], build = []\<rparr>
   \<and> upgrade_decision plain_version (cluster_at photon_rev2) photon_rev2
       = Inr \<lparr>upgrade_docker = False, upgrade_k8s = True, upgrade_cni = False\<rparr>"
proof -
  have d: "c_docker_version (cluster_at photon_rev2) = t_docker_version photon_rev2"
    and k: "c_kubernetes_version (cluster_at photon_rev2) = t_kubernetes_version photon_rev2"
    and c: "c_cni_version (cluster_at photon_rev2) = t_cni_version photon_rev2"
    by (simp_all add: cluster_at_def)
  have pk: "plain_version (t_kubernetes_version photon_rev2)
       = Some \<lparr>major = 1, minor = 15, patch = 0, prerelease = [], build = []\<rparr>"
    by code_simp
  have pc: "plain_version (t_cni_version photon_rev2)
       = Some \<lparr>major = 2, minor = 5, patch = 2, prerelease = [], build = []\<rparr>"
    by code_simp
  from upgrade_decision_same_versions [OF d k c pk pc] d k c pk pc show ?thesis by simp
qed

text \<open>The claim as the specification words it fails on an already-upgraded cluster:
  Kubernetes is marked for upgrade.\<close>

theorem upgrade_decision_same_versions_counterexample:
  "c_docker_version (cluster_at photon_rev2) = t_docker_version photon_rev2
   \<and> c_kubernetes_version (cluster_at photon_rev2) = t_kubernetes_version photon_rev2
   \<and> c_cni_version (cluster_at photon_rev2) = t_cni_version photon_rev2
   \<and> upgrade_decision plain_version (cluster_at photon_rev2) photon_rev2
       = Inr \<lparr>upgrade_docker = False, upgrade_k8s = True, upgrade_cni = False\<rparr>
   \<and> upgrade_decision plain_version (cluster_at photon_rev2) photon_rev2
       \<noteq> Inr \<lparr>upgrade_docker = False, upgrade_k8s = False, upgrade_cni = False\<rparr>"
  by code_simp

text \<open>
  Claim C4, as the code has it. When the four version strings parse, Kubernetes is marked
  exactly when the target version is not below the cluster's in the semantic-version
  order, docker exactly when the target string is greater than the cluster's in the
  lexicographic order of strings, and CNI exactly when the target CNI version is above
  the cluster's, or the target's Kubernetes major number is greater than the cluster's, or
  the target's Kubernetes minor number is greater than the cluster's.
\<close>

theorem upgrade_decision_flags:
  assumes "semver (c_kubernetes_version c) = Some c_k8s"
    and "semver (t_kubernetes_version t) = Some t_k8s"
    and "semver (c_cni_version c) = Some c_cni_v"
    and "semver (t_cni_version t) = Some t_cni_v"
  shows "\<exists>f. upgrade_decision semver c t = Inr f
      \<and> (upgrade_k8s f \<longleftrightarrow> \<not> precedence_key_lt t_k8s c_k8s)
      \<and> (upgrade_docker f \<longleftrightarrow> c_docker_version c < t_docker_version t)
      \<and> (upgrade_cni f \<longleftrightarrow> precedence_key_lt c_cni_v t_cni_v
             \<or> major c_k8s < major t_k8s \<or> minor c_k8s < minor t_k8s)"
  using assms
  by (simp add: upgrade_decision_def version_ge_iff_not_lt version_gt_def)

theorem upgrade_decision_flags_witness:
  "plain_version (c_kubernetes_version (cluster_at photon_rev1))
       = Some \<lparr>major = 1, minor = 14, patch = 0, prerelease = [], build = []\<rparr>
   \<and> plain_version (t_kubernetes_version photon_rev2)
       = Some \<lparr>major = 1, minor = 15, patch = 0, prerelease = [], build = []\<rparr>
   \<and> plain_version (c_cni_version (cluster_at photon_rev1))
       = Some \<lparr>major = 2, minor = 3, patch = 0, prerelease = [], build = []\<rparr>
   \<and> plain_version (t_cni_version photon_rev2)
       = Some \<lparr>major = 2, minor = 5, patch = 2, prerelease = [], build = []\<rparr>
   \<and> (\<exists>f. upgrade_decision plain_version (cluster_at photon_rev1) photon_rev2 = Inr f
          \<and> upgrade_k8s f \<and> \<not> upgrade_docker f \<and> upgrade_cni f)"
proof -
  have ck: "plain_version (c_kubernetes_version (cluster_at photon_rev1))
       = Some \<lparr>major = 1, minor = 14, patch = 0, prerelease = [], build = []\<rparr>"
    by code_simp
  have tk: "plain_version (t_kubernetes_version photon_rev2)
       = Some \<lparr>major = 1, minor = 15, patch = 0, prerelease = [], build = []\<rparr>"
    by code_simp
  have cc: "plain_version (c_cni_version (cluster_at photon_rev1))
       = Some \<lparr>major = 2, minor = 3, patch = 0, prerelease = [], build = []\<rparr>"
    by code_simp
  have tc: "plain_version (t_cni_version photon_rev2)
       = Some \<lparr>major = 2, minor = 5, patch = 2, prerelease = [], build = []\<rparr>"
    by code_simp
  from upgrade_decision_flags [OF ck tk cc tc] obtain f where
    f: "upgrade_decision plain_version (cluster_at photon_rev1) photon_rev2 = Inr f"
    and k8s: "upgrade_k8s f \<longleftrightarrow> \<not> precedence_key_lt
        \<lparr>major = 1, minor = 15, patch = 0, prerelease = [], build = []\<rparr>
        \<lparr>major = 1, minor = 14, patch = 0, prerelease = [], build = []\<rparr>"
    and docker: "upgrade_docker f \<longleftrightarrow>
        c_docker_version (cluster_at photon_rev1) < t_docker_version photon_rev2"
    and cni: "upgrade_cni f \<longleftrightarrow> precedence_key_lt
        \<lparr>major = 2, minor = 3, patch = 0, prerelease = [], build = []\<rparr>
        \<lparr>major = 2, minor = 5, patch = 2, prerelease = [], build = []\<rparr>
        \<or> (1::nat) < 1 \<or> (14::nat) < 15"
    by auto
  from k8s have "upgrade_k8s f" by (simp add: precedence_key_lt_def)
  moreover from docker have "\<not> upgrade_docker f"
    by (simp add: cluster_at_def photon_rev1_def photon_rev2_def)
  moreover from cni have "upgrade_cni f" by simp
  ultimately show ?thesis using f ck tk cc tc by blast
qed

text \<open>The claim as the specification words it fails when the Kubernetes minor number goes
  down: from 1.15.0 to 1.13.5 the minor number changes and the CNI version does not rise,
  and CNI is not marked.\<close>

theorem upgrade_decision_flags_counterexample:
  "plain_version (c_kubernetes_version (cluster_at photon_rev2))
       = Some \<lparr>major = 1, minor = 15, patch = 0, prerelease = [], build = []\<rparr>
   \<and> plain_version (t_kubernetes_version ubuntu_rev1)
       = Some \<lparr>major = 1, minor = 13, patch = 5, prerelease = [], build = []\<rparr>
   \<and> upgrade_decision plain_version (cluster_at photon_rev2) ubuntu_rev1
       = Inr \<lparr>upgrade_docker = True, upgrade_k8s = False, upgrade_cni = False\<rparr>"
  by code_simp

section \<open>Upgrade plan\<close>

lemma upgrade_plan_loop_filter:
  "upgrade_plan_loop int_of n r acc ts = Inr ups \<Longrightarrow>
     ups = acc @ filter (upgrade_candidate int_of n r) ts"
proof (induction ts arbitrary: acc)
  case Nil
  then show ?case by simp
next
  case (Cons t ts)
  note keep = Cons.IH [of acc] and add = Cons.IH [of "acc @ [t]"]
  show ?case
  proof (cases "n \<in> set (t_upgrade_from t)")
    case False
    with Cons.prems keep show ?thesis by (simp add: upgrade_candidate_def)
  next
    case mem: True
    show ?thesis
    proof (cases "t_name t = n")
      case False
      with mem Cons.prems add show ?thesis
        by (simp add: upgrade_candidate_def same_name_not_newer_def)
    next
      case same: True
      from Cons.prems mem same obtain a b where
        ab: "int_of (t_revision t) = Some a" "int_of r = Some b"
        by (auto split: option.splits)
      show ?thesis
      proof (cases "a \<le> b")
        case True
        with ab mem same Cons.prems keep show ?thesis
          by (simp add: upgrade_candidate_def same_name_not_newer_def)
      next
        case False
        with ab mem same Cons.prems add show ?thesis
          by (simp add: upgrade_candidate_def same_name_not_newer_def)
      qed
    qed
  qed
qed

lemma upgrade_plan_loop_parsed:
  "upgrade_plan_loop int_of n r acc ts = Inr ups \<Longrightarrow> t \<in> set ts \<Longrightarrow>
     n \<in> set (t_upgrade_from t) \<Longrightarrow> t_name t = n \<Longrightarrow>
     int_of (t_revision t) \<noteq> None \<and> int_of r \<noteq> None"
proof (induction ts arbitrary: acc)
  case Nil
  then show ?case by simp
next
  case (Cons u us)
  show ?case
  proof (cases "t = u")
    case True
    with Cons.prems show ?thesis by (auto split: option.splits)
  next
    case False
    with Cons.prems have t_in: "t \<in> set us" by simp
    from Cons.prems(1) obtain acc' where "upgrade_plan_loop int_of n r acc' us = Inr ups"
      by (auto split: if_splits option.splits)
    from Cons.IH [OF this t_in Cons.prems(3,4)] show ?thesis .
  qed
qed

lemma upgrade_plan_loop_total:
  "int_of r \<noteq> None \<Longrightarrow> \<forall>t\<in>set ts. int_of (t_revision t) \<noteq> None \<Longrightarrow>
     \<exists>ups. upgrade_plan_loop int_of n r acc ts = Inr ups"
  by (induction ts arbitrary: acc) (auto split: option.splits)

text \<open>
  Claim C6. When \<open>get_cluster_upgrade_plan\<close> returns, its result is the list of the
  configured templates, in their order, whose upgrade-from list holds the cluster's
  template name and that are not of the same name at a revision at most the cluster's; no
  returned template has the cluster's own name and revision. It returns whenever the
  revisions are integers.
\<close>

theorem upgrade_plan_exact:
  "(get_cluster_upgrade_plan int_of templates c = Inr ups \<longrightarrow>
      ups = filter (upgrade_candidate int_of (c_template_name c) (c_template_revision c)) templates
      \<and> (\<forall>t\<in>set ups. t \<in> set templates \<and> c_template_name c \<in> set (t_upgrade_from t)
             \<and> \<not> same_name_not_newer int_of (c_template_name c) (c_template_revision c) t
             \<and> \<not> (t_name t = c_template_name c \<and> t_revision t = c_template_revision c)))
   \<and> (int_of (c_template_revision c) \<noteq> None \<and> (\<forall>t\<in>set templates. int_of (t_revision t) \<noteq> None)
        \<longrightarrow> get_cluster_upgrade_plan int_of templates c =
              Inr (filter (upgrade_candidate int_of (c_template_name c) (c_template_revision c)) templates))"
proof -
  let ?n = "c_template_name c" and ?r = "c_template_revision c"
  have filt: "ups' = filter (upgrade_candidate int_of ?n ?r) templates"
    if "get_cluster_upgrade_plan int_of templates c = Inr ups'" for ups'
    using upgrade_plan_loop_filter [of int_of ?n ?r "[]" templates ups'] that
    by (simp add: get_cluster_upgrade_plan_def)
  have cur: "\<not> (t_name t = ?n \<and> t_revision t = ?r)"
    if ret: "get_cluster_upgrade_plan int_of templates c = Inr ups'" and mem: "t \<in> set ups'" for ups' t
  proof
    assume eq: "t_name t = ?n \<and> t_revision t = ?r"
    from filt [OF ret] mem have cand: "upgrade_candidate int_of ?n ?r t" and t_in: "t \<in> set templates"
      by auto
    from upgrade_plan_loop_parsed [of int_of ?n ?r "[]" templates ups' t] ret t_in cand eq
    obtain a where "int_of (t_revision t) = Some a"
      by (auto simp: get_cluster_upgrade_plan_def upgrade_candidate_def)
    with cand eq show False
      by (simp add: upgrade_candidate_def same_name_not_newer_def)
  qed
  have tot: "get_cluster_upgrade_plan int_of templates c = Inr (filter (upgrade_candidate int_of ?n ?r) templates)"
    if "int_of ?r \<noteq> None" "\<forall>t\<in>set templates. int_of (t_revision t) \<noteq> None"
  proof -
    from upgrade_plan_loop_total [OF that, of ?n "[]"] obtain ups' where
      "get_cluster_upgrade_plan int_of templates c = Inr ups'"
      by (auto simp: get_cluster_upgrade_plan_def)
    with filt show ?thesis by simp
  qed
  have part1: "ups = filter (upgrade_candidate int_of ?n ?r) templates
      \<and> (\<forall>t\<in>set ups. t \<in> set templates \<and> ?n \<in> set (t_upgrade_from t)
             \<and> \<not> same_name_not_newer int_of ?n ?r t
             \<and> \<not> (t_name t = ?n \<and> t_revision t = ?r))"
    if ret: "get_cluster_upgrade_plan int_of templates c = Inr ups"
  proof (intro conjI ballI)
    show eq: "ups = filter (upgrade_candidate int_of ?n ?r) templates" by (rule filt [OF ret])
    fix t assume mem: "t \<in> set ups"
    with eq have "t \<in> set templates \<and> upgrade_candidate int_of ?n ?r t" by simp
    then show "t \<in> set templates" "?n \<in> set (t_upgrade_from t)"
      "\<not> same_name_not_newer int_of ?n ?r t"
      by (simp_all add: upgrade_candidate_def)
    show "\<not> (t_name t = ?n \<and> t_revision t = ?r)" by (rule cur [OF ret mem])
  qed
  from part1 tot show ?thesis by blast
qed

theorem upgrade_plan_exact_witness:
  "get_cluster_upgrade_plan decimal_int [photon_rev1, photon_rev2, ubuntu_rev1]
       (cluster_at photon_rev2) = Inr [ubuntu_rev1]
   \<and> [ubuntu_rev1] = filter (upgrade_candidate decimal_int ''photon-v2'' ''2'')
                          [photon_rev1, photon_rev2, ubuntu_rev1]
   \<and> \<not> (t_name ubuntu_rev1 = ''photon-v2'' \<and> t_revision ubuntu_rev1 = ''2'')"
proof -
  have ev: "get_cluster_upgrade_plan decimal_int [photon_rev1, photon_rev2, ubuntu_rev1]
       (cluster_at photon_rev2) = Inr [ubuntu_rev1]"
    by code_simp
  have n: "c_template_name (cluster_at photon_rev2) = ''photon-v2''"
    and r: "c_template_revision (cluster_at photon_rev2) = ''2''"
    by (simp_all add: cluster_at_def photon_rev2_def)
  from upgrade_plan_exact [of decimal_int "[photon_rev1, photon_rev2, ubuntu_rev1]"
      "cluster_at photon_rev2" "[ubuntu_rev1]"] ev
  show ?thesis unfolding n r by simp
qed

section \<open>Cluster-name validator\<close>

lemma at_dollar_no_lf: "line_feed \<notin> set x \<Longrightarrow> at_dollar x k \<longleftrightarrow> k = length x"
proof -
  assume no_lf: "line_feed \<notin> set x"
  have "x ! k \<noteq> line_feed" if "Suc k = length x"
  proof -
    from that have "x ! k \<in> set x" by (intro nth_mem) simp
    with no_lf show ?thesis by auto
  qed
  then show ?thesis by (auto simp: at_dollar_def)
qed

lemma allowed_match_at_no_lf:
  "line_feed \<notin> set x \<Longrightarrow>
     allowed_match_at decimal x k \<longleftrightarrow>
       k = length x \<and> list_all (label_char decimal) x \<and> last x \<noteq> hyphen"
  by (auto simp: allowed_match_at_def at_dollar_no_lf)

lemma label_char_latin1: "c < 256 \<Longrightarrow> label_char decimal c = spec_label_char c"
  by (auto simp: label_char_def spec_label_char_def)

lemma list_all_label_char_latin1:
  "\<forall>c\<in>set x. c < 256 \<Longrightarrow> list_all (label_char decimal) x = list_all spec_label_char x"
  by (induction x) (simp_all add: label_char_latin1)

lemma allowed_match_no_lf:
  assumes "line_feed \<notin> set x" and "\<forall>c\<in>set x. c < 256"
  shows "allowed_match decimal x \<longleftrightarrow> spec_label x"
proof -
  have "list_ex (allowed_match_at decimal x) [1..<64] \<longleftrightarrow>
          1 \<le> length x \<and> length x \<le> 63 \<and> list_all spec_label_char x \<and> last x \<noteq> hyphen"
    using assms(1) list_all_label_char_latin1 [OF assms(2), of decimal]
    by (auto simp: list_ex_iff allowed_match_at_no_lf)
  moreover have "prefix [hyphen] x \<longleftrightarrow> x \<noteq> [] \<and> hd x = hyphen"
    by (cases x) auto
  ultimately show ?thesis
    by (auto simp: allowed_match_def spec_label_def)
qed

lemma split_on_set: "\<forall>l\<in>set (split_on sep s). set l \<subseteq> set s"
proof (induction s)
  case Nil
  then show ?case by simp
next
  case (Cons c cs)
  show ?case
  proof (cases "split_on sep cs")
    case Nil
    then show ?thesis by simp
  next
    case (Cons w ws)
    with Cons.IH have "set w \<subseteq> set cs" "\<forall>l\<in>set ws. set l \<subseteq> set cs" by simp_all
    with Cons show ?thesis by auto
  qed
qed

lemma list_all_allowed_match_no_lf:
  assumes "line_feed \<notin> set s" and "\<forall>c\<in>set s. c < 256"
  shows "list_all (allowed_match decimal) (split_on sep s) = list_all spec_label (split_on sep s)"
proof -
  have "allowed_match decimal l = spec_label l" if "l \<in> set (split_on sep s)" for l
  proof (rule allowed_match_no_lf)
    from split_on_set [of sep s] that have sub: "set l \<subseteq> set s" by blast
    from sub assms(1) show "line_feed \<notin> set l" by blast
    from sub assms(2) show "\<forall>c\<in>set l. c < 256" by blast
  qed
  then show ?thesis by (simp add: list_all_iff)
qed

text \<open>
  Claim C3, as the code has it. On a non-empty name whose code points are all below
  U+0100 and that contains no line feed, the validator returns whether the name has at
  most 25 characters and, once a single trailing dot is removed, consists of
  dot-separated labels, each matching \<open>[A-Za-z0-9-]{1,63}\<close> with no leading or trailing
  hyphen. This holds whatever the interpreter's table of decimal digits is.
\<close>

theorem is_valid_cluster_name_grammar:
  assumes "name \<noteq> []" and "\<forall>c\<in>set name. c < 256" and "line_feed \<notin> set name"
  shows "is_valid_cluster_name decimal name =
           Inr (length name \<le> 25
                \<and> list_all spec_label (split_on dot (strip_trailing_dot name)))"
proof -
  have "line_feed \<notin> set (strip_trailing_dot name)"
    using assms(3) by (auto simp: strip_trailing_dot_def dest: in_set_butlastD)
  moreover have "\<forall>c\<in>set (strip_trailing_dot name). c < 256"
    using assms(2) by (auto simp: strip_trailing_dot_def dest: in_set_butlastD)
  ultimately have
    "list_all (allowed_match decimal) (split_on dot (strip_trailing_dot name))
       = list_all spec_label (split_on dot (strip_trailing_dot name))"
    by (rule list_all_allowed_match_no_lf)
  with assms(1) show ?thesis
    by (auto simp: is_valid_cluster_name_def strip_trailing_dot_def Let_def)
qed

theorem is_valid_cluster_name_grammar_witness:
  "is_valid_cluster_name (\<lambda>c. c = 0x663) (code_points ''my-cluster1'') = Inr True
   \<and> is_valid_cluster_name (\<lambda>c. c = 0x663) (code_points ''-bad'') = Inr False
   \<and> is_valid_cluster_name (\<lambda>c. c = 0x663) (code_points ''my.cluster.'') = Inr True
   \<and> is_valid_cluster_name (\<lambda>c. c = 0x663) (code_points ''my..cluster'') = Inr False
   \<and> is_valid_cluster_name (\<lambda>c. c = 0x663) (code_points ''my_cluster'') = Inr False
   \<and> is_valid_cluster_name (\<lambda>c. c = 0x663) (code_points ''aaaaaaaaaaaaaaaaaaaaaaaaaa'')
       = Inr False"
  using is_valid_cluster_name_grammar [of "code_points ''my-cluster1''" "\<lambda>c. c = 0x663"]
    is_valid_cluster_name_grammar [of "code_points ''-bad''" "\<lambda>c. c = 0x663"]
    is_valid_cluster_name_grammar [of "code_points ''my.cluster.''" "\<lambda>c. c = 0x663"]
    is_valid_cluster_name_grammar [of "code_points ''my..cluster''" "\<lambda>c. c = 0x663"]
    is_valid_cluster_name_grammar [of "code_points ''my_cluster''" "\<lambda>c. c = 0x663"]
    is_valid_cluster_name_grammar [of "code_points ''aaaaaaaaaaaaaaaaaaaaaaaaaa''"
      "\<lambda>c. c = 0x663"]
  by (simp add: code_points_def strip_trailing_dot_def spec_label_def spec_label_char_def
      ascii_letter_def ascii_digit_def hyphen_def line_feed_def dot_def)

text \<open>The claim as the specification words it fails on a name that ends with a dot: its
  last label is empty, and the validator accepts it. It also fails on a name with a
  letter outside \<open>[A-Za-z0-9-]\<close> that the case-insensitive class matches: the validator
  accepts the two code points \<open>c\<close>, U+017F.\<close>

theorem is_valid_cluster_name_counterexample:
  "is_valid_cluster_name (\<lambda>c. False) (code_points ''abc.'') = Inr True
   \<and> split_on dot (code_points ''abc.'') = [code_points ''abc'', []]
   \<and> \<not> spec_valid_cluster_name (code_points ''abc.'')
   \<and> is_valid_cluster_name (\<lambda>c. False) [99, 0x17F] = Inr True
   \<and> \<not> spec_valid_cluster_name [99, 0x17F]"
  by code_simp

section \<open>Requests to delete nodes\<close>

lemmas prog_defs = succeed_def raise_def and_then_def next_do_def try_except_def
  get_state_def log_def

lemma master_check_raises:
  assumes "\<exists>n\<in>set names. prefix p n"
  shows "\<exists>msg. for_each names
             (\<lambda>node. if prefix p node then raise (Error CseServerError (f node)) else succeed ()) w
           = (Raise (Error CseServerError msg), w)"
  using assms
proof (induction names)
  case Nil
  then show ?case by simp
next
  case (Cons n ns)
  show ?case
  proof (cases "prefix p n")
    case True
    then show ?thesis by (simp add: prog_defs)
  next
    case False
    with Cons.prems have "\<exists>n\<in>set ns. prefix p n" by simp
    from Cons.IH [OF this] False show ?thesis by (auto simp: prog_defs)
  qed
qed

text \<open>
  Claim C10, as the code has it. A \<open>delete_nodes\<close> request that carries an empty list of
  node names leaves the state as it was: no task is created, no request is sent (so no
  cluster is looked up) and no node is deleted. The check of the required keys (line 765)
  and the reading of the cluster name (line 767) come before the test of the list
  (line 771): the request returns the empty body when it passes the check and names its
  cluster, raises the error of the check when it does not pass, and raises \<open>KeyError\<close>
  when it passes but has no cluster name.
\<close>

theorem delete_nodes_empty_list:
  assumes "data NODE_NAMES_LIST = Some (PyList [])"
  shows "delete_nodes en data telemetry w =
           ((case validate_payload en (scope_defaults ++ data) [CLUSTER_NAME, NODE_NAMES_LIST] of
               Some e \<Rightarrow> Raise e
             | None \<Rightarrow> (case data CLUSTER_NAME of
                          None \<Rightarrow> Raise (Error KeyError [])
                        | Some cluster_name \<Rightarrow> Return Body_empty)), w)"
proof (cases "validate_payload en (scope_defaults ++ data) [CLUSTER_NAME, NODE_NAMES_LIST]")
  case (Some e)
  then show ?thesis
    by (simp add: delete_nodes_def Let_def check_payload_def prog_defs)
next
  case None
  show ?thesis
  proof (cases "data CLUSTER_NAME")
    case nocn: None
    with None show ?thesis
      by (simp add: delete_nodes_def Let_def check_payload_def lookup_key_def prog_defs
            map_add_def scope_defaults_def)
  next
    case (Some cn)
    with None assms show ?thesis
      by (simp add: delete_nodes_def Let_def check_payload_def lookup_key_def as_names_def
            prog_defs map_add_def scope_defaults_def)
  qed
qed

theorem delete_nodes_empty_list_witness:
  "[CLUSTER_NAME \<mapsto> PyStr ''demo'', NODE_NAMES_LIST \<mapsto> PyList []] NODE_NAMES_LIST
       = Some (PyList [])
   \<and> delete_nodes quiet_env [CLUSTER_NAME \<mapsto> PyStr ''demo'', NODE_NAMES_LIST \<mapsto> PyList []]
        True demo_world = (Return Body_empty, demo_world)"
  using delete_nodes_empty_list
    [of "[CLUSTER_NAME \<mapsto> PyStr ''demo'', NODE_NAMES_LIST \<mapsto> PyList []]" quiet_env True
      demo_world]
  by (simp add: quiet_env_def required_present_def scope_defaults_def)

text \<open>The claim as the specification words it fails on a request with an empty list and
  no cluster name: the check of the required keys raises; and where that check lets the
  request pass, reading the cluster name raises \<open>KeyError\<close>.\<close>

theorem delete_nodes_empty_list_counterexample:
  "delete_nodes quiet_env [NODE_NAMES_LIST \<mapsto> PyList []] True demo_world
     = (Raise (Error BadRequestError ''Missing required keys''), demo_world)
   \<and> delete_nodes (quiet_env\<lparr>validate_payload := (\<lambda>d required. None)\<rparr>)
        [NODE_NAMES_LIST \<mapsto> PyList []] True demo_world
     = (Raise (Error KeyError []), demo_world)"
  by (simp add: delete_nodes_def Let_def check_payload_def lookup_key_def prog_defs
        map_add_def scope_defaults_def quiet_env_def required_present_def)

text \<open>
  Claim C7. A \<open>delete_nodes\<close> request whose list of node names holds a name that starts
  with the master prefix raises an error and leaves the state as it was, whatever the
  other names are: no task is started and no node is touched. When the request names its
  cluster and passes the check of the required keys, the error is the
  \<open>CseServerError\<close> of the master check.
\<close>

theorem delete_nodes_master_rejected:
  assumes "data NODE_NAMES_LIST = Some (PyList names)"
    and "\<exists>n\<in>set names. prefix (MASTER en) n"
  shows "\<exists>e. delete_nodes en data telemetry w = (Raise e, w)
           \<and> (validate_payload en (scope_defaults ++ data)
                 [CLUSTER_NAME, NODE_NAMES_LIST] = None \<and> data CLUSTER_NAME \<noteq> None
               \<longrightarrow> class_of e = CseServerError)"
proof -
  let ?v = "scope_defaults ++ data"
  from assms(2) have ne: "names \<noteq> []" by auto
  show ?thesis
  proof (cases "validate_payload en ?v [CLUSTER_NAME, NODE_NAMES_LIST]")
    case (Some e)
    then show ?thesis
      by (simp add: delete_nodes_def Let_def check_payload_def prog_defs)
  next
    case None
    show ?thesis
    proof (cases "data CLUSTER_NAME")
      case nocn: None
      with None show ?thesis
        by (simp add: delete_nodes_def Let_def check_payload_def lookup_key_def prog_defs map_add_def scope_defaults_def)
    next
      case (Some cn)
      from master_check_raises [OF assms(2), of "\<lambda>node. ''Can't delete master node: '' @ quoted node @ ''.''" w]
      obtain msg where "for_each names
             (\<lambda>node. if prefix (MASTER en) node
                     then raise (Error CseServerError (''Can't delete master node: '' @ quoted node @ ''.''))
                     else succeed ()) w = (Raise (Error CseServerError msg), w)" by blast
      with None Some assms(1) ne show ?thesis
        by (simp add: delete_nodes_def Let_def check_payload_def lookup_key_def as_names_def
              prog_defs map_add_def scope_defaults_def)
    qed
  qed
qed

theorem delete_nodes_master_rejected_witness:
  "(\<exists>n\<in>set [''node-ab12'', ''mstr-x1y2'']. prefix (MASTER quiet_env) n)
   \<and> (\<exists>e. delete_nodes quiet_env
              [CLUSTER_NAME \<mapsto> PyStr ''demo'',
               NODE_NAMES_LIST \<mapsto> PyList [''node-ab12'', ''mstr-x1y2'']] True demo_world
            = (Raise e, demo_world) \<and> class_of e = CseServerError)"
proof -
  let ?d = "[CLUSTER_NAME \<mapsto> PyStr ''demo'',
             NODE_NAMES_LIST \<mapsto> PyList [''node-ab12'', ''mstr-x1y2'']]"
  have a: "?d NODE_NAMES_LIST = Some (PyList [''node-ab12'', ''mstr-x1y2''])" by simp
  have b: "\<exists>n\<in>set [''node-ab12'', ''mstr-x1y2'']. prefix (MASTER quiet_env) n"
    by (simp add: quiet_env_def)
  have c: "validate_payload quiet_env (scope_defaults ++ ?d)
             [CLUSTER_NAME, NODE_NAMES_LIST] = None"
    by (simp add: quiet_env_def required_present_def scope_defaults_def)
  have d: "?d CLUSTER_NAME \<noteq> None" by simp
  from delete_nodes_master_rejected
    [of ?d "[''node-ab12'', ''mstr-x1y2'']" quiet_env True demo_world, OF a b] c d b
  show ?thesis by blast
qed

section \<open>Programs only append to the trace\<close>

lemma growsI: "(\<And>w r w'. m w = (r, w') \<Longrightarrow> \<exists>evs. trace w' = trace w @ evs) \<Longrightarrow> grows m"
  by (simp add: grows_def)

lemma growsD: "grows m \<Longrightarrow> m w = (r, w') \<Longrightarrow> \<exists>evs. trace w' = trace w @ evs"
  by (simp add: grows_def)

lemma grows_succeed: "grows (succeed x)"
  by (simp add: grows_def succeed_def)

lemma grows_raise: "grows (raise e)"
  by (simp add: grows_def raise_def)

lemma grows_get_state: "grows (get_state f)"
  by (simp add: grows_def get_state_def)

lemma grows_log: "grows (log lvl msg)"
  by (auto simp: grows_def log_def)

lemma grows_context_end: "grows context_end"
  by (auto simp: grows_def context_end_def)

lemma grows_set_is_async: "grows set_is_async"
  by (auto simp: grows_def set_is_async_def)

lemma grows_call:
  assumes "\<And>w. trace (effect w) = trace w"
  shows "grows (call en x effect)"
  using assms by (auto simp: grows_def call_def Let_def split: option.splits)

lemma grows_request: "grows (request en x)"
  by (simp add: request_def grows_call)

lemma grows_and_then:
  assumes "grows m" and "\<And>x. grows (f x)"
  shows "grows (and_then m f)"
proof (rule growsI)
  fix w r w' assume run: "and_then m f w = (r, w')"
  obtain r1 w1 where m: "m w = (r1, w1)" by (cases "m w")
  from growsD [OF assms(1) m] obtain evs1 where e1: "trace w1 = trace w @ evs1" by blast
  show "\<exists>evs. trace w' = trace w @ evs"
  proof (cases r1)
    case (Return x)
    with run m have "f x w1 = (r, w')" by (simp add: and_then_def)
    from growsD [OF assms(2) this] e1 show ?thesis by auto
  next
    case (Raise e)
    with run m e1 show ?thesis by (auto simp: and_then_def)
  next
    case Hang
    with run m e1 show ?thesis by (auto simp: and_then_def)
  qed
qed

lemma grows_next_do: "grows m \<Longrightarrow> grows n \<Longrightarrow> grows (next_do m n)"
  by (simp add: next_do_def grows_and_then)

lemma grows_try_except:
  assumes "grows m" and "\<And>e. grows (h e)"
  shows "grows (try_except m h)"
proof (rule growsI)
  fix w r w' assume run: "try_except m h w = (r, w')"
  obtain r1 w1 where m: "m w = (r1, w1)" by (cases "m w")
  from growsD [OF assms(1) m] obtain evs1 where e1: "trace w1 = trace w @ evs1" by blast
  show "\<exists>evs. trace w' = trace w @ evs"
  proof (cases r1)
    case (Return x)
    with run m e1 show ?thesis by (auto simp: try_except_def)
  next
    case (Raise e)
    with run m have "h e w1 = (r, w')" by (simp add: try_except_def)
    from growsD [OF assms(2) this] e1 show ?thesis by auto
  next
    case Hang
    with run m e1 show ?thesis by (auto simp: try_except_def)
  qed
qed



lemma grows_update_task: "grows (update_task en s m)"
  by (simp add: update_task_def grows_call)

lemma grows_get_all_vms: "grows (get_all_vms en href)"
  unfolding get_all_vms_def
  by (intro grows_next_do grows_and_then grows_request grows_get_state)
     (simp add: grows_raise grows_succeed split: option.split)


lemma grows_get_node_names: "grows (get_node_names en href t)"
  unfolding get_node_names_def
  by (intro grows_and_then grows_get_all_vms grows_succeed)

lemma grows_change_vapp [simp]: "trace (change_vapp href f w) = trace w"
  by (simp add: change_vapp_def)


lemma grows_execute_script_in_guest: "grows (execute_script_in_guest en node script)"
  unfolding execute_script_in_guest_def
  by (intro grows_and_then grows_next_do grows_get_state grows_request grows_succeed)

lemma grows_execute_script_in_nodes: "grows (execute_script_in_nodes en ns script check)"
proof (induction ns)
  case Nil
  then show ?case by (simp add: grows_succeed)
next
  case (Cons n ns)
  show ?case
    unfolding execute_script_in_nodes.simps
    by (intro grows_next_do grows_and_then grows_request grows_execute_script_in_guest Cons
          grows_succeed) (simp add: grows_request grows_succeed)
qed

lemma grows_run_script_in_nodes: "grows (run_script_in_nodes en href ns script)"
  unfolding run_script_in_nodes_def
  by (intro grows_next_do grows_and_then grows_request grows_execute_script_in_nodes)
     (simp add: grows_raise grows_succeed split: list.split)

lemma grows_first_of: "grows (first_of xs)"
  by (simp add: first_of_def grows_raise grows_succeed split: list.split)

lemma grows_run_in_first_master: "grows (run_in_first_master en href script)"
  unfolding run_in_first_master_def
  by (intro grows_and_then grows_get_node_names grows_first_of grows_run_script_in_nodes)

lemma grows_priv_drain_nodes: "grows (priv_drain_nodes en href names)"
  unfolding priv_drain_nodes_def
  by (intro grows_try_except grows_run_in_first_master grows_next_do grows_log grows_raise)




section \<open>Taking runs apart\<close>

lemma and_then_ReturnD:
  assumes "and_then m f w = (Return y, w')"
  obtains x w1 where "m w = (Return x, w1)" and "f x w1 = (Return y, w')"
  using assms by (auto simp: and_then_def split: prod.splits outcome.splits)

lemma next_do_ReturnD:
  assumes "next_do m n w = (Return y, w')"
  obtains x w1 where "m w = (Return x, w1)" and "n w1 = (Return y, w')"
  using assms unfolding next_do_def by (rule and_then_ReturnD)

lemma update_task_ok:
  "faults en (clock w) (UpdateTask s) = None \<Longrightarrow>
     update_task en s m w = (Return (), after_update_task s m w)"
  by (simp add: update_task_def call_def after_update_task_def Let_def)

lemma log_eq: "log lvl msg w = (Return (), after_log lvl msg w)"
  by (simp add: log_def after_log_def)

section \<open>Deleting nodes\<close>





section \<open>Programs that leave a component of the state alone\<close>

lemma keepsI: "(\<And>w r w'. m w = (r, w') \<Longrightarrow> f w' = f w) \<Longrightarrow> keeps f m"
  by (simp add: keeps_def)

lemma keepsD: "keeps f m \<Longrightarrow> m w = (r, w') \<Longrightarrow> f w' = f w"
  by (simp add: keeps_def)

lemma keeps_succeed: "keeps f (succeed x)"
  by (simp add: keeps_def succeed_def)

lemma keeps_raise: "keeps f (raise e)"
  by (simp add: keeps_def raise_def)

lemma keeps_get_state: "keeps f (get_state g)"
  by (simp add: keeps_def get_state_def)

lemma keeps_and_then:
  assumes "keeps f m" and "\<And>x. keeps f (k x)"
  shows "keeps f (and_then m k)"
proof (rule keepsI)
  fix w r w' assume run: "and_then m k w = (r, w')"
  obtain r1 w1 where m: "m w = (r1, w1)" by (cases "m w")
  from keepsD [OF assms(1) m] have e1: "f w1 = f w" .
  show "f w' = f w"
  proof (cases r1)
    case (Return x)
    with run m have "k x w1 = (r, w')" by (simp add: and_then_def)
    from keepsD [OF assms(2) this] e1 show ?thesis by simp
  next
    case (Raise e)
    with run m e1 show ?thesis by (auto simp: and_then_def)
  next
    case Hang
    with run m e1 show ?thesis by (auto simp: and_then_def)
  qed
qed

lemma keeps_next_do: "keeps f m \<Longrightarrow> keeps f n \<Longrightarrow> keeps f (next_do m n)"
  by (simp add: next_do_def keeps_and_then)

lemma keeps_try_except:
  assumes "keeps f m" and "\<And>e. keeps f (h e)"
  shows "keeps f (try_except m h)"
proof (rule keepsI)
  fix w r w' assume run: "try_except m h w = (r, w')"
  obtain r1 w1 where m: "m w = (r1, w1)" by (cases "m w")
  from keepsD [OF assms(1) m] have e1: "f w1 = f w" .
  show "f w' = f w"
  proof (cases r1)
    case (Return x)
    with run m e1 show ?thesis by (auto simp: try_except_def)
  next
    case (Raise e)
    with run m have "h e w1 = (r, w')" by (simp add: try_except_def)
    from keepsD [OF assms(2) this] e1 show ?thesis by simp
  next
    case Hang
    with run m e1 show ?thesis by (auto simp: try_except_def)
  qed
qed

lemma keeps_run_all: "(\<And>m. m \<in> set ms \<Longrightarrow> keeps f m) \<Longrightarrow> keeps f (run_all ms)"
  by (induction ms) (simp_all add: keeps_succeed keeps_next_do)

lemma keeps_for_each: "(\<And>x. keeps f (body x)) \<Longrightarrow> keeps f (for_each xs body)"
  by (induction xs) (simp_all add: keeps_succeed keeps_next_do)

text \<open>The components that a request without effect and a log entry leave alone.\<close>

lemma keeps_vapps_request: "keeps vapps (request en x)"
  by (auto simp: keeps_def request_def call_def Let_def split: option.splits)

lemma keeps_task_request:
  "(\<And>s. x \<noteq> UpdateTask s) \<Longrightarrow> keeps task_resource (request en x)"
  by (auto simp: keeps_def request_def call_def Let_def split: option.splits)

lemma keeps_vapps_log: "keeps vapps (log lvl msg)"
  by (simp add: keeps_def log_def)

lemma keeps_vapps_get_all_vms: "keeps vapps (get_all_vms en href)"
  unfolding get_all_vms_def
  by (intro keeps_next_do keeps_and_then keeps_vapps_request keeps_get_state)
     (simp add: keeps_raise keeps_succeed split: option.split)

lemma keeps_vapps_get_node_names: "keeps vapps (get_node_names en href t)"
  unfolding get_node_names_def
  by (intro keeps_and_then keeps_vapps_get_all_vms keeps_succeed)

lemma keeps_vapps_execute_script_in_guest: "keeps vapps (execute_script_in_guest en node script)"
  unfolding execute_script_in_guest_def
  by (intro keeps_and_then keeps_next_do keeps_get_state keeps_vapps_request keeps_succeed)

lemma keeps_vapps_execute_script_in_nodes:
  "keeps vapps (execute_script_in_nodes en ns script check)"
proof (induction ns)
  case Nil
  then show ?case by (simp add: keeps_succeed)
next
  case (Cons n ns)
  show ?case
    unfolding execute_script_in_nodes.simps
    by (intro keeps_next_do keeps_and_then keeps_vapps_request
          keeps_vapps_execute_script_in_guest Cons keeps_succeed)
       (simp add: keeps_vapps_request keeps_succeed)
qed

lemma keeps_vapps_run_script_in_nodes: "keeps vapps (run_script_in_nodes en href ns script)"
  unfolding run_script_in_nodes_def
  by (intro keeps_next_do keeps_and_then keeps_vapps_request keeps_vapps_execute_script_in_nodes)
     (simp add: keeps_raise keeps_succeed split: list.split)

lemma keeps_first_of: "keeps f (first_of xs)"
  by (simp add: first_of_def keeps_raise keeps_succeed split: list.split)

lemma keeps_vapps_run_in_first_master: "keeps vapps (run_in_first_master en href script)"
  unfolding run_in_first_master_def
  by (intro keeps_and_then keeps_vapps_get_node_names keeps_first_of
        keeps_vapps_run_script_in_nodes)

lemma keeps_vapps_priv_drain_nodes: "keeps vapps (priv_drain_nodes en href names)"
  unfolding priv_drain_nodes_def
  by (intro keeps_try_except keeps_vapps_run_in_first_master keeps_next_do keeps_vapps_log
        keeps_raise)


section \<open>Node provisioning\<close>

lemma and_then_RaiseD:
  assumes "and_then m f w = (Raise e, w')"
  shows "m w = (Raise e, w') \<or> (\<exists>x w1. m w = (Return x, w1) \<and> f x w1 = (Raise e, w'))"
  using assms by (auto simp: and_then_def split: prod.splits outcome.splits)










section \<open>Lookups leave the state alone\<close>

lemma keeps_request:
  assumes "\<And>w t c. f (w\<lparr>trace := t, clock := c\<rparr>) = f w"
  shows "keeps f (request en x)"
  using assms by (auto simp: keeps_def request_def call_def Let_def split: option.splits)




lemma keeps_as_int: "keeps f (as_int v)"
  by (simp add: as_int_def keeps_succeed keeps_raise split: pyval.split)

lemma keeps_get_all_clusters:
  assumes "\<And>w t c. f (w\<lparr>trace := t, clock := c\<rparr>) = f w"
  shows "keeps f (get_all_clusters en n i d)"
  unfolding get_all_clusters_def
  by (intro keeps_next_do keeps_request keeps_get_state assms)

lemma keeps_get_cluster:
  assumes "\<And>w t c. f (w\<lparr>trace := t, clock := c\<rparr>) = f w"
  shows "keeps f (get_cluster en n i d)"
  unfolding get_cluster_def
  by (intro keeps_and_then keeps_get_all_clusters assms)
     (simp add: keeps_raise keeps_succeed)




section \<open>The worker count of \<open>get_cluster_info\<close>\<close>




section \<open>Rollback of a cluster creation\<close>

lemma metadata_entry_fixed:
  "c_vdc_href (metadata_entry c kv) = c_vdc_href c"
  by (cases "(c, kv)" rule: metadata_entry.cases) simp_all

lemma foldl_metadata_entry_fixed:
  "c_vdc_href (foldl metadata_entry c kvs) = c_vdc_href c"
  by (induction kvs arbitrary: c) (simp_all add: metadata_entry_fixed)

lemma cluster_of_vapp_vdc_href: "c_vdc_href (cluster_of_vapp g v) = vapp_vdc_href v"
  by (simp add: cluster_of_vapp_def Let_def foldl_metadata_entry_fixed)

lemma get_cluster_Return:
  assumes "get_cluster en n i d w = (Return c, w')"
  shows "vapps w' = vapps w
         \<and> (\<exists>v. filter (query_filter n i d) (vapps w) = [v] \<and> c_vdc_href c = vapp_vdc_href v)"
proof -
  have k: "keeps vapps (get_cluster en n i d)" by (rule keeps_get_cluster) simp
  from assms [unfolded get_cluster_def] obtain cs w0 where
    a: "get_all_clusters en n i d w = (Return cs, w0)"
    and r: "(if length cs > 1 then raise (Error CseDuplicateClusterError ''Found multiple clusters'')
            else if length cs = 0 then raise (Error ClusterNotFoundError ''Cluster not found.'')
            else succeed (hd cs)) w0 = (Return c, w')"
    by (rule and_then_ReturnD)
  from r have "\<not> length cs > 1 \<and> length cs \<noteq> 0" and c: "c = hd cs"
    by (auto simp: raise_def succeed_def split: if_splits)
  then have len: "length cs = 1" by arith
  have ka: "keeps vapps (get_all_clusters en n i d)" by (rule keeps_get_all_clusters) simp
  from a obtain u1 wa where q1: "request en QueryClusters w = (Return u1, wa)"
    and a2: "next_do (request en QueryClusters)
          (get_state (\<lambda>w. map (cluster_of_vapp (k8s_version_from_template_name en))
                            (filter (query_filter n i d) (vapps w)))) wa = (Return cs, w0)"
    unfolding get_all_clusters_def by (rule next_do_ReturnD)
  from a2 obtain u2 wb where q2: "request en QueryClusters wa = (Return u2, wb)"
    and g: "get_state (\<lambda>w. map (cluster_of_vapp (k8s_version_from_template_name en))
                            (filter (query_filter n i d) (vapps w))) wb = (Return cs, w0)"
    by (rule next_do_ReturnD)
  from keepsD [OF keeps_vapps_request q1] keepsD [OF keeps_vapps_request q2]
  have vb: "vapps wb = vapps w" by simp
  from g vb have cs: "cs = map (cluster_of_vapp (k8s_version_from_template_name en))
                            (filter (query_filter n i d) (vapps w))"
    by (simp add: get_state_def)
  with len obtain v where v: "filter (query_filter n i d) (vapps w) = [v]"
    by (cases "filter (query_filter n i d) (vapps w)") auto
  with cs c have "c_vdc_href c = vapp_vdc_href v" by (simp add: cluster_of_vapp_vdc_href)
  with v keepsD [OF k assms] show ?thesis by blast
qed

lemma priv_delete_vapp_Return:
  assumes "priv_delete_vapp en vdc name w = (Return (), w')"
  shows "vapps w' = filter (\<lambda>v. \<not> (vapp_vdc_href v = vdc \<and> vapp_name v = name)) (vapps w)"
  using assms
  by (auto simp: priv_delete_vapp_def vdc_delete_vapp_def try_except_def and_then_def
        get_state_def call_def request_def next_do_def raise_def log_def Let_def
        split: if_splits option.splits)

lemma priv_delete_vapp_Raise:
  assumes "priv_delete_vapp en vdc name w = (Raise e, w')"
  shows "vapps w' = vapps w"
  using assms
  by (auto simp: priv_delete_vapp_def vdc_delete_vapp_def try_except_def and_then_def
        get_state_def call_def request_def next_do_def raise_def log_def Let_def
        split: if_splits option.splits)

lemma priv_delete_vapp_no_Hang: "priv_delete_vapp en vdc name w \<noteq> (Hang, w')"
  by (auto simp: priv_delete_vapp_def vdc_delete_vapp_def try_except_def and_then_def
        get_state_def call_def request_def next_do_def raise_def log_def Let_def
        split: if_splits option.splits)

lemma get_cluster_no_Hang: "get_cluster en n i d w \<noteq> (Hang, w')"
  by (auto simp: get_cluster_def get_all_clusters_def and_then_def
        get_state_def call_def request_def next_do_def raise_def succeed_def Let_def
        split: if_splits option.splits)

lemma rollback_attempt_no_Hang: "rollback_attempt en a w \<noteq> (Hang, w')"
proof
  assume h: "rollback_attempt en a w = (Hang, w')"
  obtain r w0 where g: "get_cluster en (Some (ca_cluster_name a)) (Some (ca_cluster_id a))
                 (Some (ca_ovdc_name a)) w = (r, w0)"
    by (cases "get_cluster en (Some (ca_cluster_name a)) (Some (ca_cluster_id a))
                 (Some (ca_ovdc_name a)) w")
  show False
  proof (cases r)
    case (Return c)
    with h g have "priv_delete_vapp en (c_vdc_href c) (ca_cluster_name a) w0 = (Hang, w')"
      by (simp add: rollback_attempt_def and_then_def)
    with priv_delete_vapp_no_Hang show False by blast
  next
    case (Raise e)
    with h g show False by (simp add: rollback_attempt_def and_then_def)
  next
    case Hang
    with g get_cluster_no_Hang show False by blast
  qed
qed

lemma rollback_attempt_Return:
  assumes "rollback_attempt en a w = (Return (), w')"
  shows "filter (query_filter (Some (ca_cluster_name a)) (Some (ca_cluster_id a))
                   (Some (ca_ovdc_name a))) (vapps w') = []
         \<and> set (vapps w') \<subseteq> set (vapps w)"
proof -
  let ?q = "query_filter (Some (ca_cluster_name a)) (Some (ca_cluster_id a)) (Some (ca_ovdc_name a))"
  from assms [unfolded rollback_attempt_def] obtain c w0 where
    g: "get_cluster en (Some (ca_cluster_name a)) (Some (ca_cluster_id a))
          (Some (ca_ovdc_name a)) w = (Return c, w0)"
    and d: "priv_delete_vapp en (c_vdc_href c) (ca_cluster_name a) w0 = (Return (), w')"
    by (rule and_then_ReturnD)
  from get_cluster_Return [OF g] obtain v where
    v0: "vapps w0 = vapps w" and one: "filter ?q (vapps w) = [v]"
    and vdc: "c_vdc_href c = vapp_vdc_href v" by blast
  from priv_delete_vapp_Return [OF d] v0 vdc
  have after: "vapps w' = filter (\<lambda>u. \<not> (vapp_vdc_href u = vapp_vdc_href v
                                        \<and> vapp_name u = ca_cluster_name a)) (vapps w)"
    by simp
  from one have "v \<in> set (filter ?q (vapps w))" by simp
  then have qv: "?q v" by simp
  then have vname: "vapp_name v = ca_cluster_name a" by (simp add: query_filter_def)
  have "\<not> ?q u" if "u \<in> set (vapps w')" for u
  proof
    assume qu: "?q u"
    from that after have u_in: "u \<in> set (vapps w)"
      and keep: "\<not> (vapp_vdc_href u = vapp_vdc_href v \<and> vapp_name u = ca_cluster_name a)"
      by simp_all
    from u_in qu have "u \<in> set (filter ?q (vapps w))" by simp
    with one have "u = v" by simp
    with keep vname show False by simp
  qed
  then have "filter ?q (vapps w') = []" by (simp add: filter_empty_conv)
  moreover from after have "set (vapps w') \<subseteq> set (vapps w)" by auto
  ultimately show ?thesis by blast
qed

lemma rollback_attempt_Raise:
  assumes "rollback_attempt en a w = (Raise e, w')"
  shows "vapps w' = vapps w"
proof -
  have k: "keeps vapps (get_cluster en (Some (ca_cluster_name a)) (Some (ca_cluster_id a))
          (Some (ca_ovdc_name a)))" by (rule keeps_get_cluster) simp
  from and_then_RaiseD [OF assms [unfolded rollback_attempt_def]] show ?thesis
  proof
    assume "get_cluster en (Some (ca_cluster_name a)) (Some (ca_cluster_id a))
              (Some (ca_ovdc_name a)) w = (Raise e, w')"
    from keepsD [OF k this] show ?thesis .
  next
    assume "\<exists>c w0. get_cluster en (Some (ca_cluster_name a)) (Some (ca_cluster_id a))
              (Some (ca_ovdc_name a)) w = (Return c, w0)
            \<and> priv_delete_vapp en (c_vdc_href c) (ca_cluster_name a) w0 = (Raise e, w')"
    then obtain c w0 where g: "get_cluster en (Some (ca_cluster_name a)) (Some (ca_cluster_id a))
              (Some (ca_ovdc_name a)) w = (Return c, w0)"
      and d: "priv_delete_vapp en (c_vdc_href c) (ca_cluster_name a) w0 = (Raise e, w')" by blast
    from keepsD [OF k g] priv_delete_vapp_Raise [OF d] show ?thesis by simp
  qed
qed

section \<open>Running the model on concrete inputs\<close>

lemma and_then_cong: "w = w' \<Longrightarrow> and_then m f w = and_then m f w'" by simp
lemma next_do_cong: "w = w' \<Longrightarrow> next_do m n w = next_do m n w'" by simp
lemma try_except_cong: "w = w' \<Longrightarrow> try_except m h w = try_except m h w'" by simp
lemma try_finally_cong: "w = w' \<Longrightarrow> try_finally m h w = try_finally m h w'" by simp
lemma run_all_cong: "w = w' \<Longrightarrow> run_all ms w = run_all ms w'" by simp
lemma for_each_cong: "w = w' \<Longrightarrow> for_each xs b w = for_each xs b w'" by simp
lemma run_async_cong: "w = w' \<Longrightarrow> run_async m w = run_async m w'" by simp

lemmas run_congs = and_then_cong next_do_cong try_except_cong try_finally_cong run_all_cong
  for_each_cong run_async_cong

lemma quiet_env_fields:
  "broker_templates quiet_env = [photon_rev1, photon_rev2, ubuntu_rev1]"
  "broker_default_template_name quiet_env = ''photon-v2''"
  "broker_default_template_revision quiet_env = ''1''"
  "broker_catalog quiet_env = ''cse''"
  "cse_version quiet_env = ''2.6.0''"
  "MASTER quiet_env = ''mstr''" "WORKER quiet_env = ''node''" "NFS quiet_env = ''nfsd''"
  "validate_payload quiet_env = required_present"
  "ancestors quiet_env c = []"
  "faults quiet_env n x = None"
  "guest_output quiet_env n node = (0, ''abcdef.0123456789abcdef 10.0.0.2'', [])"
  "script_text quiet_env name revision file = ''script''"
  "k8s_version_from_template_name quiet_env name = ''0.0.0''"
  "format_script quiet_env script token ip = script @ '' '' @ token @ '' '' @ ip"
  "source_vm quiet_env catalog_name item_name = item_name"
  "vdc_href_of quiet_env name = ''vdc/'' @ name"
  "new_href quiet_env k = ''vapp/'' @ str_nat k"
  by (simp_all add: quiet_env_def)

lemma failing_env_fields:
  "broker_templates (failing_env fs) = [photon_rev1, photon_rev2, ubuntu_rev1]"
  "broker_default_template_name (failing_env fs) = ''photon-v2''"
  "broker_default_template_revision (failing_env fs) = ''1''"
  "broker_catalog (failing_env fs) = ''cse''"
  "cse_version (failing_env fs) = ''2.6.0''"
  "MASTER (failing_env fs) = ''mstr''" "WORKER (failing_env fs) = ''node''"
  "NFS (failing_env fs) = ''nfsd''"
  "validate_payload (failing_env fs) = required_present"
  "ancestors (failing_env fs) c = []"
  "faults (failing_env fs) n x = map_of fs x"
  "guest_output (failing_env fs) n node = (0, ''abcdef.0123456789abcdef 10.0.0.2'', [])"
  "script_text (failing_env fs) name revision file = ''script''"
  "k8s_version_from_template_name (failing_env fs) name = ''0.0.0''"
  "format_script (failing_env fs) script token ip = script @ '' '' @ token @ '' '' @ ip"
  "source_vm (failing_env fs) catalog_name item_name = item_name"
  "vdc_href_of (failing_env fs) name = ''vdc/'' @ name"
  "new_href (failing_env fs) k = ''vapp/'' @ str_nat k"
  by (simp_all add: failing_env_def quiet_env_def)

lemma failing_at_env_fields:
  "broker_templates (failing_at_env k e fs) = [photon_rev1, photon_rev2, ubuntu_rev1]"
  "broker_default_template_name (failing_at_env k e fs) = ''photon-v2''"
  "broker_default_template_revision (failing_at_env k e fs) = ''1''"
  "broker_catalog (failing_at_env k e fs) = ''cse''"
  "cse_version (failing_at_env k e fs) = ''2.6.0''"
  "MASTER (failing_at_env k e fs) = ''mstr''" "WORKER (failing_at_env k e fs) = ''node''"
  "NFS (failing_at_env k e fs) = ''nfsd''"
  "validate_payload (failing_at_env k e fs) = required_present"
  "ancestors (failing_at_env k e fs) c = []"
  "faults (failing_at_env k e fs) n x = (if n = k then Some e else map_of fs x)"
  "guest_output (failing_at_env k e fs) n node = (0, ''abcdef.0123456789abcdef 10.0.0.2'', [])"
  "script_text (failing_at_env k e fs) name revision file = ''script''"
  "k8s_version_from_template_name (failing_at_env k e fs) name = ''0.0.0''"
  "format_script (failing_at_env k e fs) script token ip = script @ '' '' @ token @ '' '' @ ip"
  "source_vm (failing_at_env k e fs) catalog_name item_name = item_name"
  "vdc_href_of (failing_at_env k e fs) name = ''vdc/'' @ name"
  "new_href (failing_at_env k e fs) j = ''vapp/'' @ str_nat j"
  by (simp_all add: failing_at_env_def quiet_env_def)

lemma script_failing_env_fields:
  "MASTER (script_failing_env k) = ''mstr''" "WORKER (script_failing_env k) = ''node''"
  "NFS (script_failing_env k) = ''nfsd''"
  "ancestors (script_failing_env k) c = []"
  "faults (script_failing_env k) n x = None"
  "guest_output (script_failing_env k) n node
     = (if n = k then (1, [], ''error: cannot evict pod'') else (0, [], []))"
  by (simp_all add: script_failing_env_def quiet_env_def)

lemma str_nat_digit:
  "str_nat 0 = ''0''" "str_nat 1 = ''1''" "str_nat 2 = ''2''" "str_nat 3 = ''3''"
  "str_nat 4 = ''4''" "str_nat 5 = ''5''" "str_nat 6 = ''6''" "str_nat 7 = ''7''"
  "str_nat 8 = ''8''" "str_nat 9 = ''9''"
  "str_nat (Suc 0) = ''1''" "str_nat (Suc (Suc 0)) = ''2''"
  "str_nat (Suc (Suc (Suc 0))) = ''3''" "str_nat (Suc (Suc (Suc (Suc 0)))) = ''4''"
  by code_simp+

lemma build_specs_numeral:
  "build_specs en href node_type mk (numeral k) specs =
     and_then (try_except (pick_name en href node_type)
                 (\<lambda>err. raise (NodeCreationFailure (map target_vm_name specs) (str_error err))))
       (\<lambda>name. build_specs en href node_type mk (pred_numeral k) (specs @ [mk name]))"
  by (simp add: numeral_eq_Suc)

lemmas run_defs = succeed_def raise_def and_then_def next_do_def try_except_def try_finally_def
  get_state_def log_def call_def request_def update_task_def context_end_def set_is_async_def
  run_async_def find_vapp_def change_vapp_def get_all_vms_def get_vm_def get_node_names_def
  delete_vms_def execute_script_in_guest_def get_script_execution_errors_def
  run_script_in_nodes_def first_of_def run_in_first_master_def drain_script_def
  delete_node_script_def priv_drain_nodes_def undeploy_vms_def priv_delete_nodes_def
  delete_nodes_async_def cluster_of_vapp_def query_filter_def get_all_clusters_def
  get_cluster_def get_template_def pick_name_def add_vms_def configure_node_def
  node_creation_error_def add_nodes_try_def add_nodes_def as_int_def as_text_def as_names_def
  create_vapp_def set_metadata_def create_cluster_body_def rollback_attempt_def
  create_cluster_rollback_def recognized_def create_cluster_handler_def
  create_cluster_async_def vdc_delete_vapp_def priv_delete_vapp_def caught_by_def
  isinstance_def init_cluster_def get_master_ip_def join_cluster_def item_def py_words_def
  is_space_def check_payload_def lookup_key_def data_get_def get_cluster_info_def
  shebang_def nl_def quoted_def token_script_def ip_script_def Let_def after_log_def
  after_update_task_def str_int_def str_nat_digit
  quiet_env_fields failing_env_fields failing_at_env_fields script_failing_env_fields
  demo_world_def empty_world_def demo_vapp_def demo_create_args_def
  photon_rev1_def photon_rev2_def ubuntu_rev1_def

section \<open>Deleting nodes when the drain fails\<close>




section \<open>Failures of the node provisioning\<close>





section \<open>Resizing a cluster\<close>








section \<open>Failure of a cluster creation\<close>

text \<open>
  Claim C1, as the code has it, where the task tracker accepts the task updates. Let the
  \<open>try\<close> block of \<open>_create_cluster_async\<close> raise \<open>err\<close>. If \<open>err\<close> is of one of
  the six classes of line 949 and rollback is requested, the rollback is announced and
  attempted: when it returns, no VM group is left that answers the cluster's name, id and
  VDC; when it raises, \<open>Failed to delete cluster\<close> is logged, the VM groups are as the
  \<open>try\<close> block left them and the exception goes no further; in both cases the task is
  then marked ERROR with the text of \<open>err\<close>. If \<open>err\<close> is of one of the six classes
  and rollback is not requested, the state is as the \<open>try\<close> block left it, but for the
  log entry and the task, marked ERROR. If \<open>err\<close> is of no such class, the same holds
  whatever the rollback flag is. The function returns in every case, and the context is
  ended.
\<close>

theorem create_cluster_failure_policy:
  assumes tracker: "\<And>n s. faults en n (UpdateTask s) = None"
    and body: "create_cluster_body en a w = (Raise err, w1)"
  shows "(recognized en err \<and> truthy (ca_rollback a)
           \<and> rollback_attempt en a
                (after_log LOG_INFO ''Error creating cluster. Deleting cluster (rollback=True)''
                   (after_update_task RUNNING None w1)) = (Return (), w2)
          \<longrightarrow> create_cluster_async en a w
                = (Return (), (after_update_task ERROR (Some (str_error err))
                                 (after_log LOG_ERROR ''Error creating cluster'' w2))
                              \<lparr>ended := True\<rparr>)
              \<and> filter (query_filter (Some (ca_cluster_name a)) (Some (ca_cluster_id a))
                          (Some (ca_ovdc_name a))) (vapps w2) = [])
       \<and> (recognized en err \<and> truthy (ca_rollback a)
           \<and> rollback_attempt en a
                (after_log LOG_INFO ''Error creating cluster. Deleting cluster (rollback=True)''
                   (after_update_task RUNNING None w1)) = (Raise e, w2)
          \<longrightarrow> create_cluster_async en a w
                = (Return (), (after_update_task ERROR (Some (str_error err))
                                 (after_log LOG_ERROR ''Error creating cluster''
                                    (after_log LOG_ERROR ''Failed to delete cluster'' w2)))
                              \<lparr>ended := True\<rparr>)
              \<and> vapps w2 = vapps w1)
       \<and> (recognized en err \<and> \<not> truthy (ca_rollback a)
          \<longrightarrow> create_cluster_async en a w
                = (Return (), (after_update_task ERROR (Some (str_error err))
                                 (after_log LOG_ERROR ''Error creating cluster'' w1))
                              \<lparr>ended := True\<rparr>))
       \<and> (\<not> recognized en err
          \<longrightarrow> create_cluster_async en a w
                = (Return (), (after_update_task ERROR (Some (str_error err))
                                 (after_log LOG_ERROR ''Unknown error creating cluster'' w1))
                              \<lparr>ended := True\<rparr>))"
proof (intro conjI impI)
  assume h: "recognized en err \<and> truthy (ca_rollback a)
           \<and> rollback_attempt en a
                (after_log LOG_INFO ''Error creating cluster. Deleting cluster (rollback=True)''
                   (after_update_task RUNNING None w1)) = (Return (), w2)"
  with body show "create_cluster_async en a w
                = (Return (), (after_update_task ERROR (Some (str_error err))
                                 (after_log LOG_ERROR ''Error creating cluster'' w2))
                              \<lparr>ended := True\<rparr>)"
    by (simp add: create_cluster_async_def create_cluster_handler_def create_cluster_rollback_def
          try_finally_def try_except_def next_do_def and_then_def update_task_ok tracker log_eq
          succeed_def context_end_def)
  from h rollback_attempt_Return
  show "filter (query_filter (Some (ca_cluster_name a)) (Some (ca_cluster_id a))
                          (Some (ca_ovdc_name a))) (vapps w2) = []"
    by blast
next
  assume h: "recognized en err \<and> truthy (ca_rollback a)
           \<and> rollback_attempt en a
                (after_log LOG_INFO ''Error creating cluster. Deleting cluster (rollback=True)''
                   (after_update_task RUNNING None w1)) = (Raise e, w2)"
  with body show "create_cluster_async en a w
                = (Return (), (after_update_task ERROR (Some (str_error err))
                                 (after_log LOG_ERROR ''Error creating cluster''
                                    (after_log LOG_ERROR ''Failed to delete cluster'' w2)))
                              \<lparr>ended := True\<rparr>)"
    by (simp add: create_cluster_async_def create_cluster_handler_def create_cluster_rollback_def
          try_finally_def try_except_def next_do_def and_then_def update_task_ok tracker log_eq
          succeed_def context_end_def)
  from h have "rollback_attempt en a
                (after_log LOG_INFO ''Error creating cluster. Deleting cluster (rollback=True)''
                   (after_update_task RUNNING None w1)) = (Raise e, w2)" by simp
  from rollback_attempt_Raise [OF this] show "vapps w2 = vapps w1"
    by (simp add: after_log_def after_update_task_def)
next
  assume "recognized en err \<and> \<not> truthy (ca_rollback a)"
  with body show "create_cluster_async en a w
                = (Return (), (after_update_task ERROR (Some (str_error err))
                                 (after_log LOG_ERROR ''Error creating cluster'' w1))
                              \<lparr>ended := True\<rparr>)"
    by (simp add: create_cluster_async_def create_cluster_handler_def
          try_finally_def try_except_def next_do_def and_then_def update_task_ok tracker log_eq
          succeed_def context_end_def)
next
  assume "\<not> recognized en err"
  with body show "create_cluster_async en a w
                = (Return (), (after_update_task ERROR (Some (str_error err))
                                 (after_log LOG_ERROR ''Unknown error creating cluster'' w1))
                              \<lparr>ended := True\<rparr>)"
    by (simp add: create_cluster_async_def create_cluster_handler_def
          try_finally_def try_except_def next_do_def and_then_def update_task_ok tracker log_eq
          succeed_def context_end_def)
qed

text \<open>Four runs in which the master node fails to power on, or the wait for the new VM
  group fails: with rollback the VM group is gone; without rollback it is left with its
  master VM; with a rollback that fails it is left as well, and the failure is logged;
  after a failure of no recognized class it is left although rollback was requested.\<close>

theorem create_cluster_failure_policy_witness:
  "fst (create_cluster_body (failing_env [(PowerOn ''mstr-x1y2'', Error Exception ''boom'')])
          (demo_create_args True) empty_world)
     = Raise (Error MasterNodeCreationError ''Error adding master node:boom'')
   \<and> fst (create_cluster_async (failing_env [(PowerOn ''mstr-x1y2'', Error Exception ''boom'')])
            (demo_create_args True) empty_world) = Return ()
   \<and> vapps (snd (create_cluster_async
                    (failing_env [(PowerOn ''mstr-x1y2'', Error Exception ''boom'')])
                    (demo_create_args True) empty_world)) = []
   \<and> task_resource (snd (create_cluster_async
                    (failing_env [(PowerOn ''mstr-x1y2'', Error Exception ''boom'')])
                    (demo_create_args True) empty_world))
       = Some (ERROR, Some ''Error adding master node:boom'')
   \<and> fst (create_cluster_async (failing_env [(PowerOn ''mstr-x1y2'', Error Exception ''boom'')])
            (demo_create_args False) empty_world) = Return ()
   \<and> map vapp_vms (vapps (snd (create_cluster_async
                    (failing_env [(PowerOn ''mstr-x1y2'', Error Exception ''boom'')])
                    (demo_create_args False) empty_world))) = [[''mstr-x1y2'']]
   \<and> task_resource (snd (create_cluster_async
                    (failing_env [(PowerOn ''mstr-x1y2'', Error Exception ''boom'')])
                    (demo_create_args False) empty_world))
       = Some (ERROR, Some ''Error adding master node:boom'')
   \<and> fst (create_cluster_async
            (failing_env [(PowerOn ''mstr-x1y2'', Error Exception ''boom''),
                          (DeleteVapp ''vdc/ovdc1'' ''demo'', Error Exception ''denied'')])
            (demo_create_args True) empty_world) = Return ()
   \<and> map vapp_vms (vapps (snd (create_cluster_async
            (failing_env [(PowerOn ''mstr-x1y2'', Error Exception ''boom''),
                          (DeleteVapp ''vdc/ovdc1'' ''demo'', Error Exception ''denied'')])
            (demo_create_args True) empty_world))) = [[''mstr-x1y2'']]
   \<and> Logged LOG_ERROR ''Failed to delete cluster''
       \<in> set (trace (snd (create_cluster_async
            (failing_env [(PowerOn ''mstr-x1y2'', Error Exception ''boom''),
                          (DeleteVapp ''vdc/ovdc1'' ''demo'', Error Exception ''denied'')])
            (demo_create_args True) empty_world)))
   \<and> fst (create_cluster_body (failing_env [(WaitForStatus, Error Exception ''timeout'')])
            (demo_create_args True) empty_world) = Raise (Error Exception ''timeout'')
   \<and> fst (create_cluster_async (failing_env [(WaitForStatus, Error Exception ''timeout'')])
            (demo_create_args True) empty_world) = Return ()
   \<and> map vapp_name (vapps (snd (create_cluster_async
            (failing_env [(WaitForStatus, Error Exception ''timeout'')])
            (demo_create_args True) empty_world))) = [''demo'']
   \<and> task_resource (snd (create_cluster_async
            (failing_env [(WaitForStatus, Error Exception ''timeout'')])
            (demo_create_args True) empty_world)) = Some (ERROR, Some ''timeout'')"
proof -
  let ?Em = "failing_env [(PowerOn ''mstr-x1y2'', Error Exception ''boom'')]"
  let ?Ed = "failing_env [(PowerOn ''mstr-x1y2'', Error Exception ''boom''),
                          (DeleteVapp ''vdc/ovdc1'' ''demo'', Error Exception ''denied'')]"
  let ?Ew = "failing_env [(WaitForStatus, Error Exception ''timeout'')]"
  let ?err = "Error MasterNodeCreationError ''Error adding master node:boom''"
  let ?announce = "\<lambda>w. after_log LOG_INFO
                        ''Error creating cluster. Deleting cluster (rollback=True)''
                        (after_update_task RUNNING None w)"
  have typed: "\<And>fs. recognized (failing_env fs) ?err"
    by (simp add: recognized_def caught_by_def isinstance_def)
  have untyped: "\<not> recognized ?Ew (Error Exception ''timeout'')"
    by (simp add: recognized_def caught_by_def isinstance_def failing_env_fields)
  have yes: "truthy (ca_rollback (demo_create_args True))"
    and no: "\<not> truthy (ca_rollback (demo_create_args False))"
    by (simp_all add: demo_create_args_def)
  have tm: "\<And>n s. faults ?Em n (UpdateTask s) = None"
    and td: "\<And>n s. faults ?Ed n (UpdateTask s) = None"
    and tw: "\<And>n s. faults ?Ew n (UpdateTask s) = None"
    by (simp_all add: failing_env_fields)

  txt \<open>Rollback requested, and it succeeds.\<close>
  define a1 where "a1 = snd (create_cluster_body ?Em (demo_create_args True) empty_world)"
  define a2 where "a2 = snd (rollback_attempt ?Em (demo_create_args True) (?announce a1))"
  have fa: "fst (create_cluster_body ?Em (demo_create_args True) empty_world) = Raise ?err"
    by (simp add: run_defs build_specs_numeral cong: run_congs)
  then have body_a: "create_cluster_body ?Em (demo_create_args True) empty_world
                       = (Raise ?err, a1)"
    by (simp add: a1_def prod_eq_iff)
  have "fst (rollback_attempt ?Em (demo_create_args True) (?announce a1)) = Return ()"
    unfolding a1_def by (simp add: run_defs build_specs_numeral cong: run_congs)
  then have rb_a: "rollback_attempt ?Em (demo_create_args True) (?announce a1)
                     = (Return (), a2)"
    by (simp add: a2_def prod_eq_iff)
  have va: "vapps a2 = []"
    unfolding a2_def a1_def by (simp add: run_defs build_specs_numeral cong: run_congs)
  from create_cluster_failure_policy [OF tm body_a] typed yes rb_a
  have run_a: "create_cluster_async ?Em (demo_create_args True) empty_world
                = (Return (), (after_update_task ERROR (Some (str_error ?err))
                                 (after_log LOG_ERROR ''Error creating cluster'' a2))
                              \<lparr>ended := True\<rparr>)"
    by blast

  txt \<open>Rollback not requested.\<close>
  define b1 where "b1 = snd (create_cluster_body ?Em (demo_create_args False) empty_world)"
  have "fst (create_cluster_body ?Em (demo_create_args False) empty_world) = Raise ?err"
    by (simp add: run_defs build_specs_numeral cong: run_congs)
  then have body_b: "create_cluster_body ?Em (demo_create_args False) empty_world
                       = (Raise ?err, b1)"
    by (simp add: b1_def prod_eq_iff)
  have vb: "map vapp_vms (vapps b1) = [[''mstr-x1y2'']]"
    unfolding b1_def by (simp add: run_defs build_specs_numeral cong: run_congs)
  from create_cluster_failure_policy [OF tm body_b] typed no
  have run_b: "create_cluster_async ?Em (demo_create_args False) empty_world
                = (Return (), (after_update_task ERROR (Some (str_error ?err))
                                 (after_log LOG_ERROR ''Error creating cluster'' b1))
                              \<lparr>ended := True\<rparr>)"
    by blast

  txt \<open>Rollback requested, and it fails.\<close>
  define c1 where "c1 = snd (create_cluster_body ?Ed (demo_create_args True) empty_world)"
  define c2 where "c2 = snd (rollback_attempt ?Ed (demo_create_args True) (?announce c1))"
  have "fst (create_cluster_body ?Ed (demo_create_args True) empty_world) = Raise ?err"
    by (simp add: run_defs build_specs_numeral cong: run_congs)
  then have body_c: "create_cluster_body ?Ed (demo_create_args True) empty_world
                       = (Raise ?err, c1)"
    by (simp add: c1_def prod_eq_iff)
  have "fst (rollback_attempt ?Ed (demo_create_args True) (?announce c1))
          = Raise (Error Exception ''denied'')"
    unfolding c1_def by (simp add: run_defs build_specs_numeral cong: run_congs)
  then have rb_c: "rollback_attempt ?Ed (demo_create_args True) (?announce c1)
                     = (Raise (Error Exception ''denied''), c2)"
    by (simp add: c2_def prod_eq_iff)
  have vc: "map vapp_vms (vapps c1) = [[''mstr-x1y2'']]"
    unfolding c1_def by (simp add: run_defs build_specs_numeral cong: run_congs)
  from create_cluster_failure_policy [OF td body_c] typed yes rb_c
  have run_c: "create_cluster_async ?Ed (demo_create_args True) empty_world
                = (Return (), (after_update_task ERROR (Some (str_error ?err))
                                 (after_log LOG_ERROR ''Error creating cluster''
                                    (after_log LOG_ERROR ''Failed to delete cluster'' c2)))
                              \<lparr>ended := True\<rparr>)
               \<and> vapps c2 = vapps c1"
    by blast

  txt \<open>A failure of no recognized class.\<close>
  define d1 where "d1 = snd (create_cluster_body ?Ew (demo_create_args True) empty_world)"
  have fd: "fst (create_cluster_body ?Ew (demo_create_args True) empty_world)
          = Raise (Error Exception ''timeout'')"
    by (simp add: run_defs build_specs_numeral cong: run_congs)
  then have body_d: "create_cluster_body ?Ew (demo_create_args True) empty_world
                       = (Raise (Error Exception ''timeout''), d1)"
    by (simp add: d1_def prod_eq_iff)
  have vd: "map vapp_name (vapps d1) = [''demo'']"
    unfolding d1_def by (simp add: run_defs build_specs_numeral cong: run_congs)
  from create_cluster_failure_policy [OF tw body_d] untyped
  have run_d: "create_cluster_async ?Ew (demo_create_args True) empty_world
                = (Return (), (after_update_task ERROR (Some (str_error (Error Exception ''timeout'')))
                                 (after_log LOG_ERROR ''Unknown error creating cluster'' d1))
                              \<lparr>ended := True\<rparr>)"
    by blast

  from fa fd run_a va run_b vb run_c vc run_d vd show ?thesis
    by (simp add: after_update_task_def after_log_def)
qed

text \<open>The claim as the specification words it fails when the task tracker refuses the
  update that announces the rollback (line 952, request number 20 of this run): the
  master node has failed to power on and rollback is requested, but the exception of the
  tracker leaves the handler, the VM group is not deleted and the task is not marked
  ERROR.\<close>

theorem create_cluster_failure_policy_counterexample:
  "fst (create_cluster_body
          (failing_at_env 20 (Error Exception ''tracker down'')
             [(PowerOn ''mstr-x1y2'', Error Exception ''boom'')])
          (demo_create_args True) empty_world)
     = Raise (Error MasterNodeCreationError ''Error adding master node:boom'')
   \<and> recognized
        (failing_at_env 20 (Error Exception ''tracker down'')
           [(PowerOn ''mstr-x1y2'', Error Exception ''boom'')])
        (Error MasterNodeCreationError ''Error adding master node:boom'')
   \<and> truthy (ca_rollback (demo_create_args True))
   \<and> fst (create_cluster_async
            (failing_at_env 20 (Error Exception ''tracker down'')
               [(PowerOn ''mstr-x1y2'', Error Exception ''boom'')])
            (demo_create_args True) empty_world)
       = Raise (Error Exception ''tracker down'')
   \<and> map vapp_vms (vapps (snd (create_cluster_async
            (failing_at_env 20 (Error Exception ''tracker down'')
               [(PowerOn ''mstr-x1y2'', Error Exception ''boom'')])
            (demo_create_args True) empty_world))) = [[''mstr-x1y2'']]
   \<and> task_resource (snd (create_cluster_async
            (failing_at_env 20 (Error Exception ''tracker down'')
               [(PowerOn ''mstr-x1y2'', Error Exception ''boom'')])
            (demo_create_args True) empty_world)) = Some (RUNNING, None)"
  by (simp add: run_defs build_specs_numeral cong: run_congs)

end
